theory Spec2Isabelle
  imports Complex_Main "HOL-Library.Sublist" "HOL-Library.Monad_Syntax"
begin

section \<open>Values\<close>

text \<open>
  The backend (\<^verbatim>\<open>src/backend/src/app.ts\<close>) reads upstream payloads typed \<^verbatim>\<open>any\<close>, so
  a payload is an arbitrary JavaScript value as \<^verbatim>\<open>JSON.parse\<close> builds it. \<open>JUndefined\<close>
  is the result of reading a property that is not there. A number is given by its exact
  value. A string is its UTF-8 text. An object is the list of its own properties.
\<close>

datatype json =
    JUndefined
  | JNull
  | JBool bool
  | JNum rat
  | JStr string
  | JArr "json list"
  | JObj "(string \<times> json) list"

text \<open>
  What a handler passes to \<^verbatim>\<open>res.json\<close>: upstream values (\<open>Plain\<close>), arrays and objects
  built by the handler, and \<open>Builtin\<close>, a function or object of the JavaScript runtime that
  a property read reached through the prototype chain (named by the property). A
  \<open>Builtin\<close> is truthy and is not a string.
\<close>

datatype jsval =
    Builtin string
  | Plain json
  | Array "jsval list"
  | Object "(string \<times> jsval) list"

text \<open>Truthiness, as \<^verbatim>\<open>||\<close>, \<^verbatim>\<open>&&\<close> and \<^verbatim>\<open>if\<close> test it.\<close>

fun truthy :: "json \<Rightarrow> bool" where
  "truthy JUndefined = False"
| "truthy JNull = False"
| "truthy (JBool b) = b"
| "truthy (JNum q) = (q \<noteq> 0)"
| "truthy (JStr s) = (s \<noteq> [])"
| "truthy (JArr xs) = True"
| "truthy (JObj ps) = True"

text \<open>\<^verbatim>\<open>a || b\<close> on upstream values.\<close>

definition js_or :: "json \<Rightarrow> json \<Rightarrow> json" where
  "js_or a b = (if truthy a then a else b)"

text \<open>
  The property read \<^verbatim>\<open>v.k\<close> for the property names the program spells out
  (\<^verbatim>\<open>results\<close>, \<^verbatim>\<open>url\<close>, \<^verbatim>\<open>name\<close>, \<^verbatim>\<open>names\<close>, \<^verbatim>\<open>language\<close>, \<^verbatim>\<open>types\<close>, \<^verbatim>\<open>type\<close>,
  \<^verbatim>\<open>sprites\<close>, \<^verbatim>\<open>versions\<close>, \<^verbatim>\<open>generation-v\<close>, \<^verbatim>\<open>black-white\<close>, \<^verbatim>\<open>animated\<close>,
  \<^verbatim>\<open>front_default\<close>, \<^verbatim>\<open>other\<close>, \<^verbatim>\<open>official-artwork\<close>, \<^verbatim>\<open>count\<close>): none of them is
  defined by the prototypes of objects, arrays, strings, numbers or booleans, so the
  read gives the own property of an object and \<^verbatim>\<open>undefined\<close> otherwise. Reading a
  property of \<^verbatim>\<open>undefined\<close> or \<^verbatim>\<open>null\<close> throws a TypeError: \<open>None\<close>.
\<close>

fun get :: "json \<Rightarrow> string \<Rightarrow> json option" where
  "get JUndefined k = None"
| "get JNull k = None"
| "get (JObj ps) k = Some (case map_of ps k of None \<Rightarrow> JUndefined | Some v \<Rightarrow> v)"
| "get v k = Some JUndefined"

text \<open>Optional chaining \<^verbatim>\<open>v?.k\<close>: \<^verbatim>\<open>undefined\<close> where the plain read would throw.\<close>

definition opt_get :: "json \<Rightarrow> string \<Rightarrow> json" where
  "opt_get v k = (case get v k of None \<Rightarrow> JUndefined | Some w \<Rightarrow> w)"

section \<open>Numbers and their text\<close>

text \<open>
  The result of \<^verbatim>\<open>parseInt\<close>: \<open>NaN\<close>, or the number nearest to an integer. Integers up to
  \<open>2 ^ 53\<close> in magnitude are JavaScript numbers themselves; beyond that \<open>Num n\<close> stands for
  the double the engine rounds \<open>n\<close> to. \<open>Num 0\<close> stands for both zeros.
\<close>

datatype jsnum = NaN | Num int

fun truthy_num :: "jsnum \<Rightarrow> bool" where
  "truthy_num NaN = False"
| "truthy_num (Num n) = (n \<noteq> 0)"

text \<open>The UTF-8 text of the characters that \<^verbatim>\<open>parseInt\<close> skips at the start of its argument.\<close>

definition white_space :: "string list" where
  "white_space =
    [[CHR 0x09], [CHR 0x0A], [CHR 0x0B], [CHR 0x0C], [CHR 0x0D], [CHR 0x20],
     [CHR 0xC2, CHR 0xA0], [CHR 0xE1, CHR 0x9A, CHR 0x80],
     [CHR 0xE2, CHR 0x80, CHR 0x80], [CHR 0xE2, CHR 0x80, CHR 0x81],
     [CHR 0xE2, CHR 0x80, CHR 0x82], [CHR 0xE2, CHR 0x80, CHR 0x83],
     [CHR 0xE2, CHR 0x80, CHR 0x84], [CHR 0xE2, CHR 0x80, CHR 0x85],
     [CHR 0xE2, CHR 0x80, CHR 0x86], [CHR 0xE2, CHR 0x80, CHR 0x87],
     [CHR 0xE2, CHR 0x80, CHR 0x88], [CHR 0xE2, CHR 0x80, CHR 0x89],
     [CHR 0xE2, CHR 0x80, CHR 0x8A], [CHR 0xE2, CHR 0x80, CHR 0xA8],
     [CHR 0xE2, CHR 0x80, CHR 0xA9], [CHR 0xE2, CHR 0x80, CHR 0xAF],
     [CHR 0xE2, CHR 0x81, CHR 0x9F], [CHR 0xE3, CHR 0x80, CHR 0x80],
     [CHR 0xEF, CHR 0xBB, CHR 0xBF]]"

function trimStart :: "string \<Rightarrow> string" where
  "trimStart s =
     (case List.find (\<lambda>w. prefix w s) white_space of
        None \<Rightarrow> s
      | Some w \<Rightarrow> trimStart (drop (length w) s))"
  by pat_completeness auto
termination
proof (relation "measure length")
  show "wf (measure length)" by simp
next
  fix s w
  assume "List.find (\<lambda>w. prefix w s) white_space = Some w"
  then have w: "w \<in> set white_space" and p: "prefix w s"
    by (auto simp: find_Some_iff)
  from w have "w \<noteq> []" by (auto simp: white_space_def)
  with p have "s \<noteq> []" by auto
  with \<open>w \<noteq> []\<close> show "(drop (length w) s, s) \<in> measure length" by simp
qed

text \<open>The value of a digit character; 36 for a character that is a digit in no radix.\<close>

definition digit_value :: "char \<Rightarrow> nat" where
  "digit_value c =
     (let n = (of_char c :: nat)
      in if 48 \<le> n \<and> n \<le> 57 then n - 48
         else if 97 \<le> n \<and> n \<le> 122 then n - 87
         else if 65 \<le> n \<and> n \<le> 90 then n - 55
         else 36)"

text \<open>
  \<^verbatim>\<open>parseInt(str)\<close> with no radix: skip white space, take a sign, switch to radix 16 after
  \<^verbatim>\<open>0x\<close> or \<^verbatim>\<open>0X\<close>, read the longest run of digits, ignore the rest; \<open>NaN\<close> when there
  is no digit.
\<close>

definition parseInt :: "string \<Rightarrow> jsnum" where
  "parseInt str =
     (let s = trimStart str;
          neg = (s \<noteq> [] \<and> hd s = CHR ''-'');
          s1 = (if s \<noteq> [] \<and> (hd s = CHR ''+'' \<or> hd s = CHR ''-'') then tl s else s);
          hex = (prefix ''0x'' s1 \<or> prefix ''0X'' s1);
          R = (if hex then 16 else 10);
          s2 = (if hex then drop 2 s1 else s1);
          ds = takeWhile (\<lambda>c. digit_value c < R) s2
      in if ds = [] then NaN
         else Num ((if neg then - 1 else 1) * int (foldl (\<lambda>a c. a * R + digit_value c) 0 ds)))"

text \<open>Decimal text of a natural number and of an integer.\<close>

fun show_nat :: "nat \<Rightarrow> string" where
  "show_nat n =
     (if n < 10 then [''0123456789'' ! n]
      else show_nat (n div 10) @ [''0123456789'' ! (n mod 10)])"

declare show_nat.simps [simp del]

declare trimStart.simps [simp del]

definition show_int :: "int \<Rightarrow> string" where
  "show_int i = (if i < 0 then CHR ''-'' # show_nat (nat (- i)) else show_nat (nat i))"

section \<open>The world outside the program\<close>

text \<open>
  What the program takes from its surroundings. \<open>axios_get u\<close> is the payload
  (\<^verbatim>\<open>response.data\<close>) of \<^verbatim>\<open>await axios.get(u)\<close>, \<open>None\<close> when the call rejects.
  \<open>other_number_text\<close> is the engine's text for a number that is not an integer of
  magnitude up to \<open>2 ^ 53\<close>; \<open>array_prototype\<close> lists the property names that the engine's
  arrays inherit from \<^verbatim>\<open>Array.prototype\<close>.
\<close>

record engine =
  axios_get :: "json \<Rightarrow> json option"
  other_number_text :: "rat \<Rightarrow> string"
  array_prototype :: "string list"

definition POKEAPI_BASE_URL :: string where
  "POKEAPI_BASE_URL = ''https://pokeapi.co/api/v2''"

section \<open>Text of values\<close>

definition number_text :: "engine \<Rightarrow> rat \<Rightarrow> string" where
  "number_text env q =
     (if q = of_int \<lfloor>q\<rfloor> \<and> \<bar>q\<bar> \<le> 2 ^ 53 then show_int \<lfloor>q\<rfloor> else other_number_text env q)"

fun num_text :: "engine \<Rightarrow> jsnum \<Rightarrow> string" where
  "num_text env NaN = ''NaN''"
| "num_text env (Num n) = number_text env (of_int n)"

fun join :: "string \<Rightarrow> string list \<Rightarrow> string" where
  "join sep [] = []"
| "join sep [x] = x"
| "join sep (x # y # ys) = x @ sep @ join sep (y # ys)"

text \<open>
  The conversion of a value to a string, as a template literal and a computed property
  name \<^verbatim>\<open>o[v]\<close> perform it. An array gives its elements' texts joined by commas, with
  nothing for \<^verbatim>\<open>null\<close> and \<^verbatim>\<open>undefined\<close>. An object gives \<^verbatim>\<open>[object Object]\<close> through the
  inherited \<^verbatim>\<open>toString\<close>; an own property of that name, which is never a function in a
  parsed payload, makes the conversion throw a TypeError: \<open>None\<close>.
\<close>

fun to_text :: "engine \<Rightarrow> json \<Rightarrow> string option" where
  "to_text env JUndefined = Some ''undefined''"
| "to_text env JNull = Some ''null''"
| "to_text env (JBool b) = Some (if b then ''true'' else ''false'')"
| "to_text env (JNum q) = Some (number_text env q)"
| "to_text env (JStr s) = Some s"
| "to_text env (JArr xs) =
     map_option (join '','')
       (those (map (\<lambda>x. if x = JUndefined \<or> x = JNull then Some [] else to_text env x) xs))"
| "to_text env (JObj ps) =
     (if ''toString'' \<in> fst ` set ps then None else Some ''[object Object]'')"

text \<open>\<^verbatim>\<open>s.split(c)\<close> for a one-character separator.\<close>

fun split_on :: "char \<Rightarrow> string \<Rightarrow> string list" where
  "split_on c [] = [[]]"
| "split_on c (x # xs) =
     (if x = c then [] # split_on c xs
      else (case split_on c xs of [] \<Rightarrow> [[x]] | p # ps \<Rightarrow> (x # p) # ps))"

section \<open>Query parameters\<close>

text \<open>
  A value of \<^verbatim>\<open>req.query\<close>: a string, an array (a repeated parameter) or an object (a
  bracketed parameter); \<open>None\<close> when the parameter is absent. \<open>qs_text\<close> is the string
  that \<^verbatim>\<open>parseInt\<close> makes of it.
\<close>

datatype qs = QStr string | QArr "qs list" | QObj

fun qs_text :: "qs \<Rightarrow> string" where
  "qs_text (QStr s) = s"
| "qs_text (QArr xs) = join '','' (map qs_text xs)"
| "qs_text QObj = ''[object Object]''"

definition param_text :: "qs option \<Rightarrow> string" where
  "param_text p = (case p of None \<Rightarrow> ''undefined'' | Some v \<Rightarrow> qs_text v)"

record query =
  offset :: "qs option"
  limit :: "qs option"

text \<open>\<^verbatim>\<open>parseInt(req.query.offset as string) || 0\<close> and \<^verbatim>\<open>parseInt(req.query.limit as string) || 20\<close>.\<close>

definition num_or :: "jsnum \<Rightarrow> jsnum \<Rightarrow> jsnum" where
  "num_or a b = (if truthy_num a then a else b)"

definition offset_param :: "query \<Rightarrow> jsnum" where
  "offset_param q = num_or (parseInt (param_text (offset q))) (Num 0)"

definition limit_param :: "query \<Rightarrow> jsnum" where
  "limit_param q = num_or (parseInt (param_text (limit q))) (Num 20)"

text \<open>The upstream list request of line 63.\<close>

definition list_url :: "engine \<Rightarrow> query \<Rightarrow> string" where
  "list_url env q =
     POKEAPI_BASE_URL @ ''/pokemon?offset='' @ num_text env (offset_param q)
       @ ''&limit='' @ num_text env (limit_param q)"

section \<open>The translation cache\<close>

text \<open>
  \<^verbatim>\<open>typeKoreanNames\<close> is a plain object used as a dictionary: its own properties \<open>own\<close>,
  and above them \<^verbatim>\<open>Object.prototype\<close>. Assigning to the name \<^verbatim>\<open>__proto__\<close> runs the
  inherited setter, which makes an object or array the new prototype (\<open>parent\<close>) and
  does nothing for any other value.
\<close>

record cache =
  own :: "string \<rightharpoonup> json"
  parent :: "json option"

definition empty_cache :: cache where
  "empty_cache = \<lparr>own = Map.empty, parent = None\<rparr>"

definition object_prototype :: "string list" where
  "object_prototype =
    [''constructor'', ''__defineGetter__'', ''__defineSetter__'', ''hasOwnProperty'',
     ''__lookupGetter__'', ''__lookupSetter__'', ''isPrototypeOf'', ''propertyIsEnumerable'',
     ''toString'', ''valueOf'', ''__proto__'', ''toLocaleString'']"

definition from_object_prototype :: "string \<Rightarrow> jsval" where
  "from_object_prototype k = (if k \<in> set object_prototype then Builtin k else Plain JUndefined)"

text \<open>
  The read of a name that is not an own property of the cache, along its prototypes:
  \<^verbatim>\<open>Object.prototype\<close> at first, whose properties are functions, and the object itself
  under \<^verbatim>\<open>__proto__\<close>; after a prototype has been installed, the own properties of that
  object or array (its elements under their indices and its \<^verbatim>\<open>length\<close>), then what it
  inherits.
\<close>

fun inherited :: "engine \<Rightarrow> json option \<Rightarrow> string \<Rightarrow> jsval" where
  "inherited env (Some (JObj ps)) k =
     (case map_of ps k of
        Some v \<Rightarrow> Plain v
      | None \<Rightarrow> if k = ''__proto__'' then Plain (JObj ps) else from_object_prototype k)"
| "inherited env (Some (JArr xs)) k =
     (case map_of (zip (map show_nat [0..<length xs]) xs) k of
        Some v \<Rightarrow> Plain v
      | None \<Rightarrow>
          if k = ''length'' then Plain (JNum (of_nat (length xs)))
          else if k = ''__proto__'' then Plain (JArr xs)
          else if k \<in> set (array_prototype env) then Builtin k
          else from_object_prototype k)"
| "inherited env p k = from_object_prototype k"

text \<open>\<^verbatim>\<open>typeKoreanNames[k]\<close>.\<close>

definition cache_get :: "engine \<Rightarrow> cache \<Rightarrow> string \<Rightarrow> jsval" where
  "cache_get env c k = (case own c k of Some v \<Rightarrow> Plain v | None \<Rightarrow> inherited env (parent c) k)"

text \<open>
  \<^verbatim>\<open>typeKoreanNames[k] = v\<close>. The assignment creates or replaces the own property
  \<open>k\<close>, except for the name \<^verbatim>\<open>__proto__\<close> while neither the cache nor its prototype has an
  own property of that name: then the setter inherited from \<^verbatim>\<open>Object.prototype\<close> runs.
\<close>

definition parent_has_own :: "cache \<Rightarrow> string \<Rightarrow> bool" where
  "parent_has_own c k = (case parent c of Some (JObj ps) \<Rightarrow> k \<in> fst ` set ps | _ \<Rightarrow> False)"

definition cache_put :: "cache \<Rightarrow> string \<Rightarrow> json \<Rightarrow> cache" where
  "cache_put c k v =
     (if k = ''__proto__'' \<and> own c k = None \<and> \<not> parent_has_own c k then
        (case v of
           JObj ps \<Rightarrow> c\<lparr>parent := Some v\<rparr>
         | JArr xs \<Rightarrow> c\<lparr>parent := Some v\<rparr>
         | _ \<Rightarrow> c)
      else c\<lparr>own := (own c)(k \<mapsto> v)\<rparr>)"

text \<open>\<^verbatim>\<open>x || fallback\<close> where \<open>x\<close> is the result of a cache read.\<close>

fun val_or :: "jsval \<Rightarrow> json \<Rightarrow> jsval" where
  "val_or (Plain v) b = Plain (js_or v b)"
| "val_or x b = x"

text \<open>
  The lookup of lines 87 and 147, \<^verbatim>\<open>typeKoreanNames[englishTypeName] || englishTypeName\<close>;
  \<open>None\<close> when the conversion of the name to a property name throws.
\<close>

definition labelFor :: "engine \<Rightarrow> cache \<Rightarrow> json \<Rightarrow> jsval option" where
  "labelFor env c englishTypeName =
     do { k \<leftarrow> to_text env englishTypeName;
          Some (val_or (cache_get env c k) englishTypeName) }"

section \<open>Localized names\<close>

text \<open>
  \<^verbatim>\<open>names.find((name) => name.language.name === 'ko')\<close> on the elements of an array: the
  first element that matches, \<^verbatim>\<open>undefined\<close> when none does, \<open>None\<close> when the test throws
  on an element before a match.
\<close>

fun find_ko :: "json list \<Rightarrow> json option" where
  "find_ko [] = Some JUndefined"
| "find_ko (n # ns) =
     do { l \<leftarrow> get n ''language'';
          ln \<leftarrow> get l ''name'';
          if ln = JStr ''ko'' then Some n else find_ko ns }"

text \<open>\<^verbatim>\<open>data.names.find(...)?.name\<close>; only an array has \<^verbatim>\<open>find\<close>.\<close>

definition korean_name :: "json \<Rightarrow> json option" where
  "korean_name data =
     do { names \<leftarrow> get data ''names'';
          case names of
            JArr ns \<Rightarrow> do { e \<leftarrow> find_ko ns; Some (opt_get e ''name'') }
          | _ \<Rightarrow> None }"

section \<open>Population of the cache\<close>

text \<open>
  One callback of \<^verbatim>\<open>types.map(async (type) => ...)\<close> in \<^verbatim>\<open>loadTypeTranslations\<close>:
  \<open>None\<close> when it rejects, \<open>Some None\<close> when it ends without a write, and
  \<open>Some (Some (k, v))\<close> when it assigns \<open>v\<close> to the name \<open>k\<close>.
\<close>

definition type_write :: "engine \<Rightarrow> json \<Rightarrow> (string \<times> json) option option" where
  "type_write env t =
     do { url \<leftarrow> get t ''url'';
          detail \<leftarrow> axios_get env url;
          koreanName \<leftarrow> korean_name detail;
          if truthy koreanName then
            do { n \<leftarrow> get t ''name'';
                 k \<leftarrow> to_text env n;
                 Some (Some (k, koreanName)) }
          else Some None }"

fun apply_write :: "cache \<Rightarrow> (string \<times> json) option option \<Rightarrow> cache" where
  "apply_write c (Some (Some (k, v))) = cache_put c k v"
| "apply_write c w = c"

datatype init_log = InitStart | InitDone | InitError

definition type_list_url :: string where
  "type_list_url = POKEAPI_BASE_URL @ ''/type?limit=18''"

text \<open>
  \<^verbatim>\<open>loadTypeTranslations\<close>, as state passing: the cache once every callback has settled,
  and the console lines. The callbacks run overlapped; \<open>sched\<close> puts them in the order in
  which their requests complete (a permutation of the list). The function never throws:
  its \<^verbatim>\<open>catch\<close> logs every failure.
\<close>

definition loadTypeTranslations ::
  "engine \<Rightarrow> (json list \<Rightarrow> json list) \<Rightarrow> cache \<Rightarrow> cache \<times> init_log list" where
  "loadTypeTranslations env sched c =
     (case do { d \<leftarrow> axios_get env (JStr type_list_url); get d ''results'' } of
        Some (JArr types) \<Rightarrow>
          (let ws = map (type_write env) (sched types)
           in (foldl apply_write c ws,
               [InitStart, if None \<in> set ws then InitError else InitDone]))
      | _ \<Rightarrow> (c, [InitStart, InitError]))"

section \<open>The list endpoint\<close>

text \<open>
  Lines 69 and 70: the identifier of a reference is the next to last piece of its
  \<^verbatim>\<open>url\<close> split at the slashes, \<^verbatim>\<open>undefined\<close> when there is no slash. Only a string has
  \<^verbatim>\<open>split\<close>.
\<close>

definition item_id :: "json \<Rightarrow> json option" where
  "item_id pokemonListItem =
     do { u \<leftarrow> get pokemonListItem ''url'';
          case u of
            JStr s \<Rightarrow>
              (let parts = split_on CHR ''/'' s
               in Some (if 2 \<le> length parts then JStr (parts ! (length parts - 2))
                        else JUndefined))
          | _ \<Rightarrow> None }"

text \<open>The text of an identifier (a string or \<^verbatim>\<open>undefined\<close>) inside a template literal.\<close>

fun id_text :: "json \<Rightarrow> string" where
  "id_text (JStr s) = s"
| "id_text v = ''undefined''"

definition pokemon_url :: "string \<Rightarrow> json" where
  "pokemon_url i = JStr (POKEAPI_BASE_URL @ ''/pokemon/'' @ i)"

definition species_url :: "string \<Rightarrow> json" where
  "species_url i = JStr (POKEAPI_BASE_URL @ ''/pokemon-species/'' @ i)"

text \<open>Lines 85 to 88: \<^verbatim>\<open>pokemonData.types.map(...)\<close>; only an array has \<^verbatim>\<open>map\<close>.\<close>

definition type_labels :: "engine \<Rightarrow> cache \<Rightarrow> json \<Rightarrow> jsval list option" where
  "type_labels env c pokemonData =
     do { ts \<leftarrow> get pokemonData ''types'';
          case ts of
            JArr xs \<Rightarrow>
              those (map (\<lambda>typeInfo.
                       do { ty \<leftarrow> get typeInfo ''type'';
                            englishTypeName \<leftarrow> get ty ''name'';
                            labelFor env c englishTypeName }) xs)
          | _ \<Rightarrow> None }"

text \<open>Lines 91 to 99: every read after the first is guarded by the truthiness before it.\<close>

definition animated_image :: "json \<Rightarrow> json option" where
  "animated_image pokemonData =
     do { sprites \<leftarrow> get pokemonData ''sprites'';
          versions \<leftarrow> get sprites ''versions'';
          if truthy versions then
            do { gen \<leftarrow> get versions ''generation-v'';
                 if truthy gen then
                   do { bw \<leftarrow> get gen ''black-white'';
                        if truthy bw then
                          do { an \<leftarrow> get bw ''animated'';
                               if truthy an then
                                 do { fd \<leftarrow> get an ''front_default'';
                                      Some (if truthy fd then fd else JNull) }
                               else Some JNull }
                        else Some JNull }
                 else Some JNull }
          else Some JNull }"

text \<open>Lines 102 and 103.\<close>

definition default_image :: "json \<Rightarrow> json option" where
  "default_image pokemonData =
     do { sprites \<leftarrow> get pokemonData ''sprites'';
          other \<leftarrow> get sprites ''other'';
          let artwork = opt_get (opt_get other ''official-artwork'') ''front_default'';
          if truthy artwork then Some artwork else get sprites ''front_default'' }"

text \<open>
  The callback of lines 68 to 112 for one reference; \<open>None\<close> when its promise rejects (a
  failed request or a TypeError).
\<close>

definition process_item :: "engine \<Rightarrow> cache \<Rightarrow> json \<Rightarrow> jsval option" where
  "process_item env c pokemonListItem =
     do { i \<leftarrow> item_id pokemonListItem;
          pokemonData \<leftarrow> axios_get env (pokemon_url (id_text i));
          speciesData \<leftarrow> axios_get env (species_url (id_text i));
          ko \<leftarrow> korean_name speciesData;
          koreanName \<leftarrow> (if truthy ko then Some ko else get pokemonListItem ''name'');
          types \<leftarrow> type_labels env c pokemonData;
          animatedImageUrl \<leftarrow> animated_image pokemonData;
          defaultImageUrl \<leftarrow> default_image pokemonData;
          Some (Object
            [(''id'', Plain i),
             (''name'', Plain koreanName),
             (''types'', Array types),
             (''animatedImageUrl'', Plain animatedImageUrl),
             (''defaultImageUrl'', Plain defaultImageUrl)]) }"

record response =
  status :: nat
  body :: jsval

text \<open>
  The body of the \<^verbatim>\<open>try\<close> of \<^verbatim>\<open>GET /api/pokemons\<close>: \<^verbatim>\<open>Promise.all\<close> fulfils with the
  results in the order of the references when every callback fulfils, and rejects when
  one does.
\<close>

definition fetch_page :: "engine \<Rightarrow> cache \<Rightarrow> query \<Rightarrow> jsval option" where
  "fetch_page env c q =
     do { listData \<leftarrow> axios_get env (JStr (list_url env q));
          pokemonListItems \<leftarrow> get listData ''results'';
          case pokemonListItems of
            JArr refs \<Rightarrow>
              do { processedPokemons \<leftarrow> those (map (process_item env c) refs);
                   cnt \<leftarrow> get listData ''count'';
                   Some (Object [(''count'', Plain cnt), (''results'', Array processedPokemons)]) }
          | _ \<Rightarrow> None }"

definition api_pokemons :: "engine \<Rightarrow> cache \<Rightarrow> query \<Rightarrow> response" where
  "api_pokemons env c q =
     (case fetch_page env c q of
        Some b \<Rightarrow> \<lparr>status = 200, body = b\<rparr>
      | None \<Rightarrow>
          \<lparr>status = 500,
           body = Object [(''message'', Plain (JStr ''Failed to fetch pokemons''))]\<rparr>)"

section \<open>The detail endpoint\<close>

text \<open>Lines 143 to 149.\<close>

definition detail_types :: "engine \<Rightarrow> cache \<Rightarrow> json \<Rightarrow> jsval list option" where
  "detail_types env c pokemonData =
     do { ts \<leftarrow> get pokemonData ''types'';
          case ts of
            JArr xs \<Rightarrow>
              those (map (\<lambda>typeInfo.
                       do { ty \<leftarrow> get typeInfo ''type'';
                            englishTypeName \<leftarrow> get ty ''name'';
                            l \<leftarrow> labelFor env c englishTypeName;
                            Some (Object [(''englishName'', Plain englishTypeName),
                                          (''koreanName'', l)]) }) xs)
          | _ \<Rightarrow> None }"

text \<open>
  \<^verbatim>\<open>{ ...pokemonData, name: koreanName, types: types }\<close>. The spread is reached only
  after \<^verbatim>\<open>pokemonData.types\<close> gave an array, so \<^verbatim>\<open>pokemonData\<close> is an object there and
  the spread copies its own properties; a later property of an existing name takes the
  place of the earlier one.
\<close>

fun props :: "json \<Rightarrow> (string \<times> jsval) list" where
  "props (JObj ps) = map (\<lambda>(k, v). (k, Plain v)) ps"
| "props v = []"

fun set_prop :: "string \<Rightarrow> jsval \<Rightarrow> (string \<times> jsval) list \<Rightarrow> (string \<times> jsval) list" where
  "set_prop k v [] = [(k, v)]"
| "set_prop k v ((k', v') # ps) =
     (if k' = k then (k, v) # ps else (k', v') # set_prop k v ps)"

definition fetch_detail :: "engine \<Rightarrow> cache \<Rightarrow> string \<Rightarrow> jsval option" where
  "fetch_detail env c pokemonId =
     do { pokemonData \<leftarrow> axios_get env (pokemon_url pokemonId);
          speciesData \<leftarrow> axios_get env (species_url pokemonId);
          ko \<leftarrow> korean_name speciesData;
          koreanName \<leftarrow> (if truthy ko then Some ko else get pokemonData ''name'');
          types \<leftarrow> detail_types env c pokemonData;
          Some (Object (set_prop ''types'' (Array types)
                  (set_prop ''name'' (Plain koreanName) (props pokemonData)))) }"

definition api_pokemon :: "engine \<Rightarrow> cache \<Rightarrow> string \<Rightarrow> response" where
  "api_pokemon env c pokemonId =
     (case fetch_detail env c pokemonId of
        Some b \<Rightarrow> \<lparr>status = 200, body = b\<rparr>
      | None \<Rightarrow>
          \<lparr>status = 500,
           body = Object [(''message'', Plain (JStr (''Failed to fetch pokemon '' @ pokemonId)))]\<rparr>)"

section \<open>Reading responses\<close>

text \<open>The own property \<open>k\<close> of an object that a handler built, and of an upstream object.\<close>

fun field :: "jsval \<Rightarrow> string \<Rightarrow> jsval option" where
  "field (Object ps) k = map_of ps k"
| "field v k = None"

fun own_prop :: "json \<Rightarrow> string \<Rightarrow> json option" where
  "own_prop (JObj ps) k = map_of ps k"
| "own_prop v k = None"

text \<open>The records of a page response.\<close>

definition page_results :: "response \<Rightarrow> jsval list" where
  "page_results r = (case field (body r) ''results'' of Some (Array xs) \<Rightarrow> xs | _ \<Rightarrow> [])"

section \<open>The specification's wording\<close>

text \<open>
  The specification speaks of a sprite nested at a path that is present, and of an
  artwork reference that is present. \<open>walk\<close> follows a path of property names, giving
  \<^verbatim>\<open>undefined\<close> from a missing step on. A value is \<open>present\<close> when it is there: neither
  \<^verbatim>\<open>undefined\<close> nor \<^verbatim>\<open>null\<close>. \<open>claimed_animated\<close> and \<open>claimed_default\<close> are the selection
  in the specification's words.
\<close>

fun walk :: "json \<Rightarrow> string list \<Rightarrow> json" where
  "walk v [] = v"
| "walk v (k # ks) = walk (opt_get v k) ks"

definition present :: "json \<Rightarrow> bool" where
  "present v = (v \<noteq> JUndefined \<and> v \<noteq> JNull)"

fun present_along :: "json \<Rightarrow> string list \<Rightarrow> bool" where
  "present_along v [] = True"
| "present_along v (k # ks) = (present (opt_get v k) \<and> present_along (opt_get v k) ks)"

definition animated_path :: "string list" where
  "animated_path =
     [''versions'', ''generation-v'', ''black-white'', ''animated'', ''front_default'']"

definition artwork_path :: "string list" where
  "artwork_path = [''other'', ''official-artwork'', ''front_default'']"

definition claimed_animated :: "json \<Rightarrow> json" where
  "claimed_animated sprites =
     (if present_along sprites animated_path then walk sprites animated_path else JNull)"

definition claimed_default :: "json \<Rightarrow> json" where
  "claimed_default sprites =
     (if present (walk sprites artwork_path) then walk sprites artwork_path
      else walk sprites [''front_default''])"

text \<open>
  The selection with truthiness in the place of presence: a step that leads to an empty
  string, to zero or to \<^verbatim>\<open>false\<close> counts like a missing one.
\<close>

fun truthy_along :: "json \<Rightarrow> string list \<Rightarrow> bool" where
  "truthy_along v [] = True"
| "truthy_along v (k # ks) = (truthy (opt_get v k) \<and> truthy_along (opt_get v k) ks)"

definition truthy_animated :: "json \<Rightarrow> json" where
  "truthy_animated sprites =
     (if truthy_along sprites animated_path then walk sprites animated_path else JNull)"

definition truthy_default :: "json \<Rightarrow> json" where
  "truthy_default sprites =
     (if truthy (walk sprites artwork_path) then walk sprites artwork_path
      else walk sprites [''front_default''])"

text \<open>
  The localized name: the name of the first entry whose language is the target locale,
  and the fallback when there is no such entry; the program also falls back when that
  entry's name is not truthy.
\<close>

definition language_of :: "json \<Rightarrow> json" where
  "language_of entry = opt_get (opt_get entry ''language'') ''name''"

definition localized_name :: "json list \<Rightarrow> json \<Rightarrow> json" where
  "localized_name names fallback =
     (case List.find (\<lambda>n. language_of n = JStr ''ko'') names of
        None \<Rightarrow> fallback
      | Some n \<Rightarrow> if truthy (opt_get n ''name'') then opt_get n ''name'' else fallback)"

text \<open>The category key of an entry of a primary detail's \<^verbatim>\<open>types\<close>.\<close>

definition category_key :: "json \<Rightarrow> json" where
  "category_key typeInfo = opt_get (opt_get typeInfo ''type'') ''name''"

text \<open>The paired entry of a category in a detail response: its key and its label.\<close>

definition type_pair :: "engine \<Rightarrow> cache \<Rightarrow> json \<Rightarrow> jsval option" where
  "type_pair env c typeInfo =
     map_option
       (\<lambda>l. Object [(''englishName'', Plain (category_key typeInfo)), (''koreanName'', l)])
       (labelFor env c (category_key typeInfo))"

text \<open>The text of a parameter after its leading white space and an optional sign.\<close>

definition after_sign :: "string \<Rightarrow> string" where
  "after_sign str =
     (let s = trimStart str
      in if s \<noteq> [] \<and> (hd s = CHR ''+'' \<or> hd s = CHR ''-'') then tl s else s)"

text \<open>
  A numeric parameter in the specification's sense: an optional sign and then decimal
  digits only.
\<close>

definition numeric_text :: "string \<Rightarrow> bool" where
  "numeric_text s =
     (let d = (if s \<noteq> [] \<and> (hd s = CHR ''+'' \<or> hd s = CHR ''-'') then tl s else s)
      in d \<noteq> [] \<and> list_all (\<lambda>c. c \<in> set ''0123456789'') d)"

section \<open>A sample upstream\<close>

text \<open>
  Payloads in the shape of the upstream catalogue, for concrete runs: two items that
  resolve (4 and 7), one whose localized name is empty (1), one whose species request
  fails (9), one whose sprites are empty strings (25), a list request that answers with more references than the limit asks for,
  and two categories of which one has a label in the target locale (the UTF-8 text of
  the label of the specification's scenario).
\<close>

definition sample_label :: string where
  "sample_label = [CHR 0xEB, CHR 0xB6, CHR 0x88, CHR 0xEA, CHR 0xBD, CHR 0x83]"

definition sample_sprites_4 :: json where
  "sample_sprites_4 =
     JObj [(''front_default'', JStr ''sprites/4.png''),
           (''other'', JObj [(''official-artwork'',
              JObj [(''front_default'', JStr ''artwork/4.png'')])]),
           (''versions'', JObj [(''generation-v'', JObj [(''black-white'',
              JObj [(''animated'', JObj [(''front_default'', JStr ''animated/4.gif'')])])])])]"

definition sample_pokemon_4 :: json where
  "sample_pokemon_4 =
     JObj [(''id'', JNum 4), (''name'', JStr ''charmander''), (''height'', JNum 6),
           (''types'', JArr [JObj [(''slot'', JNum 1),
              (''type'', JObj [(''name'', JStr ''fire''),
                              (''url'', JStr ''https://pokeapi.co/api/v2/type/10/'')])]]),
           (''sprites'', sample_sprites_4)]"

definition sample_names_4 :: "json list" where
  "sample_names_4 =
     [JObj [(''language'', JObj [(''name'', JStr ''ja'')]), (''name'', JStr ''Hitokage'')],
      JObj [(''language'', JObj [(''name'', JStr ''ko'')]), (''name'', JStr ''Pairi'')]]"

definition sample_sprites_7 :: json where
  "sample_sprites_7 =
     JObj [(''front_default'', JStr ''sprites/7.png''), (''other'', JNull),
           (''versions'', JObj [(''generation-v'', JObj [(''black-white'',
              JObj [(''animated'', JObj [(''front_default'', JNull)])])])])]"

definition sample_pokemon_7 :: json where
  "sample_pokemon_7 =
     JObj [(''id'', JNum 7), (''name'', JStr ''squirtle''), (''height'', JNum 5),
           (''types'', JArr [JObj [(''slot'', JNum 1),
              (''type'', JObj [(''name'', JStr ''water''),
                              (''url'', JStr ''https://pokeapi.co/api/v2/type/11/'')])]]),
           (''sprites'', sample_sprites_7)]"

definition sample_names_7 :: "json list" where
  "sample_names_7 =
     [JObj [(''language'', JObj [(''name'', JStr ''ja'')]), (''name'', JStr ''Zenigame'')]]"

definition sample_names_1 :: "json list" where
  "sample_names_1 =
     [JObj [(''language'', JObj [(''name'', JStr ''ko'')]), (''name'', JStr [])]]"

definition sample_pokemon_1 :: json where
  "sample_pokemon_1 =
     JObj [(''id'', JNum 1), (''name'', JStr ''bulbasaur-male''), (''types'', JArr []),
           (''sprites'', JObj [(''front_default'', JStr ''sprites/1.png'')])]"

definition sample_ref_1 :: json where
  "sample_ref_1 =
     JObj [(''name'', JStr ''bulbasaur''),
           (''url'', JStr ''https://pokeapi.co/api/v2/pokemon/1/'')]"

definition sample_ref_4 :: json where
  "sample_ref_4 =
     JObj [(''name'', JStr ''charmander''),
           (''url'', JStr ''https://pokeapi.co/api/v2/pokemon/4/'')]"

definition sample_ref_7 :: json where
  "sample_ref_7 =
     JObj [(''name'', JStr ''squirtle''),
           (''url'', JStr ''https://pokeapi.co/api/v2/pokemon/7/'')]"

definition sample_ref_9 :: json where
  "sample_ref_9 =
     JObj [(''name'', JStr ''blastoise''),
           (''url'', JStr ''https://pokeapi.co/api/v2/pokemon/9/'')]"

text \<open>An item (25) whose animated sprite and artwork are there as empty strings.\<close>

definition sample_sprites_25 :: json where
  "sample_sprites_25 =
     JObj [(''front_default'', JStr ''sprites/25.png''),
           (''other'', JObj [(''official-artwork'', JObj [(''front_default'', JStr [])])]),
           (''versions'', JObj [(''generation-v'', JObj [(''black-white'',
              JObj [(''animated'', JObj [(''front_default'', JStr [])])])])])]"

definition sample_pokemon_25 :: json where
  "sample_pokemon_25 =
     JObj [(''id'', JNum 25), (''name'', JStr ''pikachu''),
           (''types'', JArr [JObj [(''slot'', JNum 1),
              (''type'', JObj [(''name'', JStr ''electric''),
                              (''url'', JStr ''https://pokeapi.co/api/v2/type/13/'')])]]),
           (''sprites'', sample_sprites_25)]"

definition sample_names_25 :: "json list" where
  "sample_names_25 =
     [JObj [(''language'', JObj [(''name'', JStr ''ko'')]), (''name'', JStr ''Pikachu-ko'')]]"

definition sample_ref_25 :: json where
  "sample_ref_25 =
     JObj [(''name'', JStr ''pikachu''),
           (''url'', JStr ''https://pokeapi.co/api/v2/pokemon/25/'')]"

definition sample_list :: json where
  "sample_list =
     JObj [(''count'', JNum 1302), (''results'', JArr [sample_ref_4, sample_ref_7])]"

definition sample_list_2 :: json where
  "sample_list_2 =
     JObj [(''count'', JNum 1302), (''results'', JArr [sample_ref_7, sample_ref_9])]"

definition sample_list_empty :: json where
  "sample_list_empty = JObj [(''count'', JNum 1302), (''results'', JArr [])]"

definition sample_type_fire :: json where
  "sample_type_fire =
     JObj [(''name'', JStr ''fire''), (''url'', JStr ''https://pokeapi.co/api/v2/type/10/'')]"

definition sample_type_water :: json where
  "sample_type_water =
     JObj [(''name'', JStr ''water''), (''url'', JStr ''https://pokeapi.co/api/v2/type/11/'')]"

definition sample_type_list :: json where
  "sample_type_list =
     JObj [(''count'', JNum 2), (''results'', JArr [sample_type_fire, sample_type_water])]"

definition sample_detail_fire :: json where
  "sample_detail_fire =
     JObj [(''names'', JArr [JObj [(''language'', JObj [(''name'', JStr ''ko'')]),
                                  (''name'', JStr sample_label)]])]"

definition sample_detail_water :: json where
  "sample_detail_water =
     JObj [(''names'', JArr [JObj [(''language'', JObj [(''name'', JStr ''en'')]),
                                  (''name'', JStr ''Water'')]])]"

definition sample_table :: "(json \<times> json) list" where
  "sample_table =
     [(JStr ''https://pokeapi.co/api/v2/pokemon?offset=0&limit=2'', sample_list),
      (JStr ''https://pokeapi.co/api/v2/pokemon?offset=0&limit=1'', sample_list),
      (JStr ''https://pokeapi.co/api/v2/pokemon?offset=2&limit=2'', sample_list_2),
      (JStr ''https://pokeapi.co/api/v2/pokemon?offset=-5&limit=-3'', sample_list_empty),
      (JStr ''https://pokeapi.co/api/v2/pokemon/1'', sample_pokemon_1),
      (JStr ''https://pokeapi.co/api/v2/pokemon-species/1'',
         JObj [(''names'', JArr sample_names_1)]),
      (JStr ''https://pokeapi.co/api/v2/pokemon/4'', sample_pokemon_4),
      (JStr ''https://pokeapi.co/api/v2/pokemon-species/4'',
         JObj [(''names'', JArr sample_names_4)]),
      (JStr ''https://pokeapi.co/api/v2/pokemon/7'', sample_pokemon_7),
      (JStr ''https://pokeapi.co/api/v2/pokemon-species/7'',
         JObj [(''names'', JArr sample_names_7)]),
      (JStr ''https://pokeapi.co/api/v2/pokemon/9'', sample_pokemon_7),
      (JStr ''https://pokeapi.co/api/v2/pokemon/25'', sample_pokemon_25),
      (JStr ''https://pokeapi.co/api/v2/pokemon-species/25'',
         JObj [(''names'', JArr sample_names_25)]),
      (JStr ''https://pokeapi.co/api/v2/type?limit=18'', sample_type_list),
      (JStr ''https://pokeapi.co/api/v2/type/10/'', sample_detail_fire),
      (JStr ''https://pokeapi.co/api/v2/type/11/'', sample_detail_water)]"

definition sample_engine :: engine where
  "sample_engine =
     \<lparr>axios_get = map_of sample_table,
      other_number_text = (\<lambda>q. ''1e+21''),
      array_prototype = [''map'', ''find'']\<rparr>"

definition sample_cache :: cache where
  "sample_cache = \<lparr>own = [''fire'' \<mapsto> JStr sample_label], parent = None\<rparr>"

definition sample_cache_before :: cache where
  "sample_cache_before = \<lparr>own = [''normal'' \<mapsto> JStr ''normal-label''], parent = None\<rparr>"

definition sample_cache_loaded :: cache where
  "sample_cache_loaded = fst (loadTypeTranslations sample_engine rev empty_cache)"

text \<open>An upstream whose only category carries a number where its label should be.\<close>

definition unchecked_engine :: engine where
  "unchecked_engine =
     \<lparr>axios_get = map_of
        [(JStr ''https://pokeapi.co/api/v2/type?limit=18'',
            JObj [(''results'',
              JArr [JObj [(''name'', JStr ''fire''), (''url'', JStr ''type/10'')]])]),
         (JStr ''type/10'',
            JObj [(''names'', JArr [JObj [(''language'', JObj [(''name'', JStr ''ko'')]),
                                         (''name'', JNum 7)]])])],
      other_number_text = (\<lambda>q. ''1e+21''),
      array_prototype = []\<rparr>"

text \<open>An upstream that answers no request.\<close>

definition offline_engine :: engine where
  "offline_engine =
     \<lparr>axios_get = (\<lambda>u. None), other_number_text = (\<lambda>q. ''1e+21''), array_prototype = []\<rparr>"

text \<open>Requests to the list endpoint.\<close>

definition sample_query_1 :: query where
  "sample_query_1 = \<lparr>offset = Some (QStr ''0''), limit = Some (QStr ''1'')\<rparr>"

definition sample_query_2 :: query where
  "sample_query_2 = \<lparr>offset = Some (QStr ''2''), limit = Some (QStr ''2'')\<rparr>"


section \<open>Basic facts\<close>

lemmas sample_defs = sample_engine_def sample_table_def sample_cache_def sample_ref_1_def
  sample_ref_4_def sample_ref_7_def sample_ref_9_def sample_list_def sample_list_2_def
  sample_list_empty_def sample_type_list_def sample_pokemon_1_def sample_pokemon_4_def
  sample_pokemon_7_def sample_names_1_def sample_names_4_def sample_names_7_def
  sample_sprites_4_def sample_sprites_7_def sample_label_def sample_type_fire_def
  sample_type_water_def sample_detail_fire_def sample_detail_water_def
  sample_ref_25_def sample_pokemon_25_def sample_sprites_25_def sample_names_25_def

lemma get_truthy: "truthy v \<Longrightarrow> get v k = Some (opt_get v k)"
  by (cases v) (simp_all add: opt_get_def)

lemma get_Some_opt_get: "get v k = Some w \<Longrightarrow> opt_get v k = w"
  by (simp add: opt_get_def)

lemma get_None_iff: "get v k = None \<longleftrightarrow> v = JUndefined \<or> v = JNull"
  by (cases v) simp_all

lemma those_eq_Some: "those os = Some ys \<longleftrightarrow> os = map Some ys"
  by (induction os arbitrary: ys) (auto split: option.splits)

lemma those_eq_None: "those os = None \<longleftrightarrow> None \<in> set os"
  by (induction os) (auto split: option.splits)

section \<open>Image selection\<close>

lemma animated_image_truthy:
  assumes "get pd ''sprites'' = Some sp"
  shows "animated_image pd =
           (if sp = JUndefined \<or> sp = JNull then None else Some (truthy_animated sp))"
proof (cases "get sp ''versions''")
  case None
  moreover from None have "sp = JUndefined \<or> sp = JNull" by (simp add: get_None_iff)
  ultimately show ?thesis using assms by (simp add: animated_image_def)
next
  case (Some vs)
  then have nn: "\<not> (sp = JUndefined \<or> sp = JNull)"
    using get_None_iff[of sp "''versions''"] by auto
  from Some have vs: "opt_get sp ''versions'' = vs" by (rule get_Some_opt_get)
  show ?thesis using assms Some nn vs
    by (simp add: animated_image_def truthy_animated_def animated_path_def get_truthy)
qed

lemma default_image_truthy:
  assumes "get pd ''sprites'' = Some sp"
  shows "default_image pd =
           (if sp = JUndefined \<or> sp = JNull then None else Some (truthy_default sp))"
proof (cases "get sp ''other''")
  case None
  moreover from None have "sp = JUndefined \<or> sp = JNull" by (simp add: get_None_iff)
  ultimately show ?thesis using assms by (simp add: default_image_def)
next
  case (Some ot)
  then have nn: "\<not> (sp = JUndefined \<or> sp = JNull)"
    using get_None_iff[of sp "''other''"] by auto
  from Some have ot: "opt_get sp ''other'' = ot" by (rule get_Some_opt_get)
  obtain fd where fd: "get sp ''front_default'' = Some fd"
    using nn get_None_iff[of sp "''front_default''"] by auto
  then have fd': "opt_get sp ''front_default'' = fd" by (rule get_Some_opt_get)
  show ?thesis using assms Some nn ot fd fd'
    by (simp add: default_image_def truthy_default_def artwork_path_def)
qed

lemma item_id_get:
  assumes "item_id ref = Some i"
  shows "get ref k = Some (opt_get ref k)"
proof -
  from assms obtain u where "get ref ''url'' = Some u"
    by (auto simp: item_id_def bind_eq_Some_conv)
  then have "\<not> (ref = JUndefined \<or> ref = JNull)"
    using get_None_iff [of ref "''url''"] by auto
  then obtain w where w: "get ref k = Some w"
    using get_None_iff [of ref k] by auto
  then have "opt_get ref k = w" by (rule get_Some_opt_get)
  with w show ?thesis by simp
qed

lemma truthy_is_present: "truthy v \<Longrightarrow> present v"
  by (cases v) (simp_all add: present_def)

lemma truthy_along_present: "truthy_along v path \<Longrightarrow> present_along v path"
  by (induction path arbitrary: v) (simp_all add: truthy_is_present)

lemma claimed_when_truthy:
  "truthy_along sprites animated_path \<Longrightarrow> truthy_animated sprites = claimed_animated sprites"
  "truthy (walk sprites artwork_path) \<Longrightarrow> truthy_default sprites = claimed_default sprites"
  by (simp_all add: truthy_animated_def claimed_animated_def truthy_default_def
      claimed_default_def truthy_along_present truthy_is_present)

text \<open>
  C4, as the program has it. A record of the list endpoint carries as
  \<^verbatim>\<open>animatedImageUrl\<close> the sprite at the path generation-v / black-white / animated /
  front_default of the primary detail's sprites when every step of that path leads to a
  truthy value, and \<^verbatim>\<open>null\<close> otherwise; it carries as \<^verbatim>\<open>defaultImageUrl\<close>, independently of
  that, the official-artwork \<^verbatim>\<open>front_default\<close> when that is truthy and the plain
  \<^verbatim>\<open>front_default\<close> otherwise, whatever that is (there is no \<^verbatim>\<open>null\<close> fallback). The
  record is produced whenever the reference has an identifier, both requests succeed,
  the localized name and the categories are read without failure, and the primary
  detail has sprites.
\<close>

theorem image_selection:
  "(process_item env c ref = Some item \<and> item_id ref = Some i
      \<and> axios_get env (pokemon_url (id_text i)) = Some pokemonData
      \<and> get pokemonData ''sprites'' = Some sprites
     \<longrightarrow> field item ''animatedImageUrl'' = Some (Plain (truthy_animated sprites))
       \<and> field item ''defaultImageUrl'' = Some (Plain (truthy_default sprites)))
   \<and> (item_id ref = Some i
      \<and> axios_get env (pokemon_url (id_text i)) = Some pokemonData
      \<and> axios_get env (species_url (id_text i)) = Some speciesData
      \<and> korean_name speciesData = Some ko
      \<and> type_labels env c pokemonData = Some types
      \<and> get pokemonData ''sprites'' = Some sprites
      \<and> present sprites
     \<longrightarrow> process_item env c ref =
           Some (Object
             [(''id'', Plain i),
              (''name'', Plain (if truthy ko then ko else opt_get ref ''name'')),
              (''types'', Array types),
              (''animatedImageUrl'', Plain (truthy_animated sprites)),
              (''defaultImageUrl'', Plain (truthy_default sprites))]))"
proof (intro conjI impI)
  assume a: "process_item env c ref = Some item \<and> item_id ref = Some i
      \<and> axios_get env (pokemon_url (id_text i)) = Some pokemonData
      \<and> get pokemonData ''sprites'' = Some sprites"
  then show "field item ''animatedImageUrl'' = Some (Plain (truthy_animated sprites))"
    by (auto simp: process_item_def bind_eq_Some_conv animated_image_truthy
        default_image_truthy split: if_splits)
  from a show "field item ''defaultImageUrl'' = Some (Plain (truthy_default sprites))"
    by (auto simp: process_item_def bind_eq_Some_conv animated_image_truthy
        default_image_truthy split: if_splits)
next
  assume a: "item_id ref = Some i
      \<and> axios_get env (pokemon_url (id_text i)) = Some pokemonData
      \<and> axios_get env (species_url (id_text i)) = Some speciesData
      \<and> korean_name speciesData = Some ko
      \<and> type_labels env c pokemonData = Some types
      \<and> get pokemonData ''sprites'' = Some sprites
      \<and> present sprites"
  then have n: "get ref ''name'' = Some (opt_get ref ''name'')"
    using item_id_get by blast
  from a have an: "animated_image pokemonData = Some (truthy_animated sprites)"
    by (simp add: animated_image_truthy present_def)
  from a have de: "default_image pokemonData = Some (truthy_default sprites)"
    by (simp add: default_image_truthy present_def)
  from a n an de show "process_item env c ref =
           Some (Object
             [(''id'', Plain i),
              (''name'', Plain (if truthy ko then ko else opt_get ref ''name'')),
              (''types'', Array types),
              (''animatedImageUrl'', Plain (truthy_animated sprites)),
              (''defaultImageUrl'', Plain (truthy_default sprites))])"
    by (simp add: process_item_def)
qed

lemma sample_item_4:
  "process_item sample_engine sample_cache sample_ref_4 =
     Some (Object
       [(''id'', Plain (JStr ''4'')), (''name'', Plain (JStr ''Pairi'')),
        (''types'', Array [Plain (JStr sample_label)]),
        (''animatedImageUrl'', Plain (JStr ''animated/4.gif'')),
        (''defaultImageUrl'', Plain (JStr ''artwork/4.png''))])"
  by code_simp

lemma sample_item_7:
  "process_item sample_engine sample_cache sample_ref_7 =
     Some (Object
       [(''id'', Plain (JStr ''7'')), (''name'', Plain (JStr ''squirtle'')),
        (''types'', Array [Plain (JStr ''water'')]),
        (''animatedImageUrl'', Plain JNull),
        (''defaultImageUrl'', Plain (JStr ''sprites/7.png''))])"
  by code_simp

lemma sample_item_25:
  "process_item sample_engine sample_cache sample_ref_25 =
     Some (Object
       [(''id'', Plain (JStr ''25'')), (''name'', Plain (JStr ''Pikachu-ko'')),
        (''types'', Array [Plain (JStr ''electric'')]),
        (''animatedImageUrl'', Plain JNull),
        (''defaultImageUrl'', Plain (JStr ''sprites/25.png''))])"
  by code_simp

theorem image_selection_counterexample:
  "axios_get sample_engine (pokemon_url ''25'') = Some sample_pokemon_25
   \<and> get sample_pokemon_25 ''sprites'' = Some sample_sprites_25
   \<and> present_along sample_sprites_25 animated_path
   \<and> claimed_animated sample_sprites_25 = JStr []
   \<and> present (walk sample_sprites_25 artwork_path)
   \<and> claimed_default sample_sprites_25 = JStr []
   \<and> process_item sample_engine sample_cache sample_ref_25 =
     Some (Object
       [(''id'', Plain (JStr ''25'')), (''name'', Plain (JStr ''Pikachu-ko'')),
        (''types'', Array [Plain (JStr ''electric'')]),
        (''animatedImageUrl'', Plain JNull),
        (''defaultImageUrl'', Plain (JStr ''sprites/25.png''))])"
proof -
  have "axios_get sample_engine (pokemon_url ''25'') = Some sample_pokemon_25" by code_simp
  moreover have "get sample_pokemon_25 ''sprites'' = Some sample_sprites_25" by code_simp
  moreover have "present_along sample_sprites_25 animated_path" by code_simp
  moreover have "claimed_animated sample_sprites_25 = JStr []" by code_simp
  moreover have "present (walk sample_sprites_25 artwork_path)" by code_simp
  moreover have "claimed_default sample_sprites_25 = JStr []" by code_simp
  ultimately show ?thesis using sample_item_25 by (intro conjI)
qed

theorem image_selection_witness:
  "process_item sample_engine sample_cache sample_ref_4 =
     Some (Object
       [(''id'', Plain (JStr ''4'')), (''name'', Plain (JStr ''Pairi'')),
        (''types'', Array [Plain (JStr sample_label)]),
        (''animatedImageUrl'', Plain (truthy_animated sample_sprites_4)),
        (''defaultImageUrl'', Plain (truthy_default sample_sprites_4))])
   \<and> truthy_animated sample_sprites_4 = JStr ''animated/4.gif''
   \<and> truthy_default sample_sprites_4 = JStr ''artwork/4.png''
   \<and> field (Object
       [(''id'', Plain (JStr ''7'')), (''name'', Plain (JStr ''squirtle'')),
        (''types'', Array [Plain (JStr ''water'')]),
        (''animatedImageUrl'', Plain JNull),
        (''defaultImageUrl'', Plain (JStr ''sprites/7.png''))]) ''animatedImageUrl''
       = Some (Plain (truthy_animated sample_sprites_7))
   \<and> field (Object
       [(''id'', Plain (JStr ''7'')), (''name'', Plain (JStr ''squirtle'')),
        (''types'', Array [Plain (JStr ''water'')]),
        (''animatedImageUrl'', Plain JNull),
        (''defaultImageUrl'', Plain (JStr ''sprites/7.png''))]) ''defaultImageUrl''
       = Some (Plain (truthy_default sample_sprites_7))
   \<and> process_item sample_engine sample_cache sample_ref_7 =
     Some (Object
       [(''id'', Plain (JStr ''7'')), (''name'', Plain (JStr ''squirtle'')),
        (''types'', Array [Plain (JStr ''water'')]),
        (''animatedImageUrl'', Plain JNull),
        (''defaultImageUrl'', Plain (JStr ''sprites/7.png''))])"
proof -
  have h4: "item_id sample_ref_4 = Some (JStr ''4'')
      \<and> axios_get sample_engine (pokemon_url (id_text (JStr ''4''))) = Some sample_pokemon_4
      \<and> axios_get sample_engine (species_url (id_text (JStr ''4'')))
          = Some (JObj [(''names'', JArr sample_names_4)])
      \<and> korean_name (JObj [(''names'', JArr sample_names_4)]) = Some (JStr ''Pairi'')
      \<and> type_labels sample_engine sample_cache sample_pokemon_4
          = Some [Plain (JStr sample_label)]
      \<and> get sample_pokemon_4 ''sprites'' = Some sample_sprites_4
      \<and> present sample_sprites_4"
    by code_simp
  have h7: "process_item sample_engine sample_cache sample_ref_7 =
     Some (Object
       [(''id'', Plain (JStr ''7'')), (''name'', Plain (JStr ''squirtle'')),
        (''types'', Array [Plain (JStr ''water'')]),
        (''animatedImageUrl'', Plain JNull),
        (''defaultImageUrl'', Plain (JStr ''sprites/7.png''))])
      \<and> item_id sample_ref_7 = Some (JStr ''7'')
      \<and> axios_get sample_engine (pokemon_url (id_text (JStr ''7''))) = Some sample_pokemon_7
      \<and> get sample_pokemon_7 ''sprites'' = Some sample_sprites_7"
    by code_simp
  have t: "truthy (JStr ''Pairi'')" by simp
  have a: "truthy_animated sample_sprites_4 = JStr ''animated/4.gif''" by code_simp
  have d: "truthy_default sample_sprites_4 = JStr ''artwork/4.png''" by code_simp
  note p4 = image_selection [where env = sample_engine and c = sample_cache
      and ref = sample_ref_4 and i = "JStr ''4''" and pokemonData = sample_pokemon_4
      and speciesData = "JObj [(''names'', JArr sample_names_4)]" and ko = "JStr ''Pairi''"
      and types = "[Plain (JStr sample_label)]" and sprites = sample_sprites_4,
      THEN conjunct2, THEN mp, OF h4, simplified t if_True]
  note p7 = image_selection [where env = sample_engine and c = sample_cache
      and ref = sample_ref_7 and i = "JStr ''7''" and pokemonData = sample_pokemon_7
      and sprites = sample_sprites_7 and item = "Object
       [(''id'', Plain (JStr ''7'')), (''name'', Plain (JStr ''squirtle'')),
        (''types'', Array [Plain (JStr ''water'')]),
        (''animatedImageUrl'', Plain JNull),
        (''defaultImageUrl'', Plain (JStr ''sprites/7.png''))]",
      THEN conjunct1, THEN mp, OF h7]
  from p4 a d p7 h7 show ?thesis by (intro conjI) (simp_all only: simp_thms)
qed

section \<open>The page\<close>

lemma fetch_page_SomeD:
  assumes "fetch_page env c q = Some b"
  shows "\<exists>listData refs items.
           axios_get env (JStr (list_url env q)) = Some listData
         \<and> get listData ''results'' = Some (JArr refs)
         \<and> map Some items = map (process_item env c) refs
         \<and> b = Object [(''count'', Plain (opt_get listData ''count'')), (''results'', Array items)]"
proof -
  from assms obtain listData where l: "axios_get env (JStr (list_url env q)) = Some listData"
    by (auto simp: fetch_page_def bind_eq_Some_conv)
  with assms obtain rs where r: "get listData ''results'' = Some rs"
    by (auto simp: fetch_page_def bind_eq_Some_conv)
  with assms l obtain refs where rs: "rs = JArr refs"
    by (cases rs) (auto simp: fetch_page_def)
  with assms l r obtain items cnt where
    i: "those (map (process_item env c) refs) = Some items"
    and cn: "get listData ''count'' = Some cnt"
    and b: "b = Object [(''count'', Plain cnt), (''results'', Array items)]"
    by (auto simp: fetch_page_def bind_eq_Some_conv)
  from i have "map Some items = map (process_item env c) refs"
    by (simp add: those_eq_Some)
  moreover from cn have "opt_get listData ''count'' = cnt" by (rule get_Some_opt_get)
  ultimately show ?thesis using l r rs b by blast
qed

lemma api_pokemons_200:
  "status (api_pokemons env c q) = 200 \<Longrightarrow>
     \<exists>b. fetch_page env c q = Some b \<and> api_pokemons env c q = \<lparr>status = 200, body = b\<rparr>"
  by (cases "fetch_page env c q") (simp_all add: api_pokemons_def)

lemma process_item_id:
  "process_item env c ref = Some item \<Longrightarrow>
     \<exists>i. item_id ref = Some i \<and> field item ''id'' = Some (Plain i)"
  by (auto simp: process_item_def bind_eq_Some_conv)

lemma ids_follow_references:
  "map Some items = map (process_item env c) refs \<Longrightarrow>
     map (\<lambda>item. field item ''id'') items = map (\<lambda>ref. map_option Plain (item_id ref)) refs"
proof (induction refs arbitrary: items)
  case Nil
  then show ?case by simp
next
  case (Cons ref refs)
  then obtain item rest where items: "items = item # rest"
    and p: "process_item env c ref = Some item"
    and r: "map Some rest = map (process_item env c) refs"
    by (cases items) auto
  from process_item_id [OF p] Cons.IH [OF r] items show ?case by auto
qed

text \<open>
  C1, as the program has it. A page that succeeds holds exactly one record for each
  reference of the upstream list response, in the order of the references (the record at
  a position is the one computed from the reference at that position, and carries that
  reference's identifier), and its \<^verbatim>\<open>count\<close> is the \<^verbatim>\<open>count\<close> of that response. The page
  is therefore as long as the upstream list, whatever the limit.
\<close>

theorem page_follows_references:
  assumes "status (api_pokemons env c q) = 200"
  shows "\<exists>listData refs.
           axios_get env (JStr (list_url env q)) = Some listData
         \<and> get listData ''results'' = Some (JArr refs)
         \<and> map Some (page_results (api_pokemons env c q)) = map (process_item env c) refs
         \<and> map (\<lambda>item. field item ''id'') (page_results (api_pokemons env c q))
             = map (\<lambda>ref. map_option Plain (item_id ref)) refs
         \<and> length (page_results (api_pokemons env c q)) = length refs
         \<and> field (body (api_pokemons env c q)) ''count''
             = Some (Plain (opt_get listData ''count''))"
proof -
  from api_pokemons_200 [OF assms] obtain b where
    f: "fetch_page env c q = Some b" and a: "api_pokemons env c q = \<lparr>status = 200, body = b\<rparr>"
    by blast
  from fetch_page_SomeD [OF f] obtain listData refs items where
    l: "axios_get env (JStr (list_url env q)) = Some listData"
    and r: "get listData ''results'' = Some (JArr refs)"
    and m: "map Some items = map (process_item env c) refs"
    and b: "b = Object [(''count'', Plain (opt_get listData ''count'')), (''results'', Array items)]"
    by blast
  from a b have pr: "page_results (api_pokemons env c q) = items"
    by (simp add: page_results_def)
  from m have len: "length items = length refs"
    by (metis length_map)
  from a b have cnt: "field (body (api_pokemons env c q)) ''count''
      = Some (Plain (opt_get listData ''count''))" by simp
  from l r m ids_follow_references [OF m] len cnt pr show ?thesis by auto
qed

lemma sample_page_1:
  "api_pokemons sample_engine sample_cache sample_query_1 =
     \<lparr>status = 200,
      body = Object [(''count'', Plain (JNum 1302)),
        (''results'', Array
          [Object
             [(''id'', Plain (JStr ''4'')), (''name'', Plain (JStr ''Pairi'')),
              (''types'', Array [Plain (JStr sample_label)]),
              (''animatedImageUrl'', Plain (JStr ''animated/4.gif'')),
              (''defaultImageUrl'', Plain (JStr ''artwork/4.png''))],
           Object
             [(''id'', Plain (JStr ''7'')), (''name'', Plain (JStr ''squirtle'')),
              (''types'', Array [Plain (JStr ''water'')]),
              (''animatedImageUrl'', Plain JNull),
              (''defaultImageUrl'', Plain (JStr ''sprites/7.png''))]])]\<rparr>"
  by code_simp

theorem page_size_counterexample:
  "offset_param sample_query_1 = Num 0 \<and> limit_param sample_query_1 = Num 1
   \<and> status (api_pokemons sample_engine sample_cache sample_query_1) = 200
   \<and> length (page_results (api_pokemons sample_engine sample_cache sample_query_1)) = 2"
proof -
  have "offset_param sample_query_1 = Num 0" by code_simp
  moreover have "limit_param sample_query_1 = Num 1" by code_simp
  ultimately show ?thesis by (simp add: sample_page_1 page_results_def)
qed

theorem page_follows_references_witness:
  "\<exists>listData refs.
      axios_get sample_engine (JStr (list_url sample_engine sample_query_1)) = Some listData
    \<and> get listData ''results'' = Some (JArr refs)
    \<and> map Some (page_results (api_pokemons sample_engine sample_cache sample_query_1))
        = map (process_item sample_engine sample_cache) refs
    \<and> map (\<lambda>item. field item ''id'')
          (page_results (api_pokemons sample_engine sample_cache sample_query_1))
        = map (\<lambda>ref. map_option Plain (item_id ref)) refs
    \<and> length (page_results (api_pokemons sample_engine sample_cache sample_query_1)) = length refs
    \<and> field (body (api_pokemons sample_engine sample_cache sample_query_1)) ''count''
        = Some (Plain (opt_get listData ''count''))"
proof -
  have "status (api_pokemons sample_engine sample_cache sample_query_1) = 200"
    by (simp add: sample_page_1)
  then show ?thesis by (rule page_follows_references)
qed

section \<open>Failures\<close>

lemma process_item_subfetch_fails:
  assumes "item_id ref = Some i"
    and "axios_get env (pokemon_url (id_text i)) = None
         \<or> axios_get env (species_url (id_text i)) = None"
  shows "process_item env c ref = None"
  using assms by (auto simp: process_item_def)

lemma fetch_page_item_fails:
  assumes "axios_get env (JStr (list_url env q)) = Some listData"
    and "get listData ''results'' = Some (JArr refs)"
    and "ref \<in> set refs"
    and "process_item env c ref = None"
  shows "fetch_page env c q = None"
proof -
  from assms(3,4) have "None \<in> set (map (process_item env c) refs)"
    by (metis image_eqI set_map)
  then have "those (map (process_item env c) refs) = None"
    by (simp add: those_eq_None)
  with assms(1,2) show ?thesis by (simp add: fetch_page_def)
qed

text \<open>
  C3. A page request answers 500 with the fixed message, and nothing else, when the
  list request fails or when, for any one reference of the list, the primary-detail
  request or the species request fails. A detail request answers 500 with a message
  that names the requested identifier when its primary-detail request or its species
  request fails, the latter also after the former has succeeded.
\<close>

theorem failure_aborts_request:
  "(axios_get env (JStr (list_url env q)) = None
      \<longrightarrow> api_pokemons env c q =
            \<lparr>status = 500,
             body = Object [(''message'', Plain (JStr ''Failed to fetch pokemons''))]\<rparr>)
   \<and> (axios_get env (JStr (list_url env q)) = Some listData
       \<and> get listData ''results'' = Some (JArr refs)
       \<and> ref \<in> set refs \<and> item_id ref = Some i
       \<and> (axios_get env (pokemon_url (id_text i)) = None
          \<or> axios_get env (species_url (id_text i)) = None)
      \<longrightarrow> api_pokemons env c q =
            \<lparr>status = 500,
             body = Object [(''message'', Plain (JStr ''Failed to fetch pokemons''))]\<rparr>)
   \<and> (axios_get env (pokemon_url pokemonId) = None
       \<or> axios_get env (species_url pokemonId) = None
      \<longrightarrow> api_pokemon env c pokemonId =
            \<lparr>status = 500,
             body = Object [(''message'',
                      Plain (JStr (''Failed to fetch pokemon '' @ pokemonId)))]\<rparr>)"
proof (intro conjI impI)
  assume "axios_get env (JStr (list_url env q)) = None"
  then show "api_pokemons env c q =
      \<lparr>status = 500, body = Object [(''message'', Plain (JStr ''Failed to fetch pokemons''))]\<rparr>"
    by (simp add: api_pokemons_def fetch_page_def)
next
  assume a: "axios_get env (JStr (list_url env q)) = Some listData
       \<and> get listData ''results'' = Some (JArr refs)
       \<and> ref \<in> set refs \<and> item_id ref = Some i
       \<and> (axios_get env (pokemon_url (id_text i)) = None
          \<or> axios_get env (species_url (id_text i)) = None)"
  then have "process_item env c ref = None"
    using process_item_subfetch_fails by blast
  with a have "fetch_page env c q = None"
    using fetch_page_item_fails by blast
  then show "api_pokemons env c q =
      \<lparr>status = 500, body = Object [(''message'', Plain (JStr ''Failed to fetch pokemons''))]\<rparr>"
    by (simp add: api_pokemons_def)
next
  assume "axios_get env (pokemon_url pokemonId) = None
       \<or> axios_get env (species_url pokemonId) = None"
  then have "fetch_detail env c pokemonId = None"
    by (auto simp: fetch_detail_def)
  then show "api_pokemon env c pokemonId =
      \<lparr>status = 500,
       body = Object [(''message'', Plain (JStr (''Failed to fetch pokemon '' @ pokemonId)))]\<rparr>"
    by (simp add: api_pokemon_def)
qed

theorem failure_aborts_request_witness:
  "axios_get offline_engine (JStr (list_url offline_engine sample_query_2)) = None
   \<and> api_pokemons offline_engine sample_cache sample_query_2 =
       \<lparr>status = 500, body = Object [(''message'', Plain (JStr ''Failed to fetch pokemons''))]\<rparr>
   \<and> axios_get sample_engine (pokemon_url ''9'') = Some sample_pokemon_7
   \<and> axios_get sample_engine (species_url ''9'') = None
   \<and> api_pokemons sample_engine sample_cache sample_query_2 =
       \<lparr>status = 500, body = Object [(''message'', Plain (JStr ''Failed to fetch pokemons''))]\<rparr>
   \<and> api_pokemon sample_engine sample_cache ''9'' =
       \<lparr>status = 500, body = Object [(''message'', Plain (JStr ''Failed to fetch pokemon 9''))]\<rparr>"
proof -
  have h0: "axios_get offline_engine (JStr (list_url offline_engine sample_query_2)) = None"
    by (simp add: offline_engine_def)
  have h1: "axios_get sample_engine (JStr (list_url sample_engine sample_query_2)) = Some sample_list_2"
    by code_simp
  have h2: "get sample_list_2 ''results'' = Some (JArr [sample_ref_7, sample_ref_9])"
    by code_simp
  have h3: "sample_ref_9 \<in> set [sample_ref_7, sample_ref_9]" by simp
  have h4: "item_id sample_ref_9 = Some (JStr ''9'')" by code_simp
  have h5: "axios_get sample_engine (pokemon_url ''9'') = Some sample_pokemon_7" by code_simp
  have h6: "axios_get sample_engine (species_url ''9'') = None" by code_simp
  from failure_aborts_request [where env = offline_engine and q = sample_query_2
      and c = sample_cache] h0
  have a: "api_pokemons offline_engine sample_cache sample_query_2 =
       \<lparr>status = 500, body = Object [(''message'', Plain (JStr ''Failed to fetch pokemons''))]\<rparr>"
    by blast
  from failure_aborts_request [where env = sample_engine and q = sample_query_2
      and listData = sample_list_2 and refs = "[sample_ref_7, sample_ref_9]"
      and ref = sample_ref_9 and i = "JStr ''9''" and c = sample_cache and pokemonId = "''9''"]
    h1 h2 h3 h4 h6
  have b: "api_pokemons sample_engine sample_cache sample_query_2 =
       \<lparr>status = 500, body = Object [(''message'', Plain (JStr ''Failed to fetch pokemons''))]\<rparr>"
    and d: "api_pokemon sample_engine sample_cache ''9'' =
       \<lparr>status = 500, body = Object [(''message'', Plain (JStr (''Failed to fetch pokemon '' @ ''9'')))]\<rparr>"
    by simp_all
  from h0 a h5 h6 b d show ?thesis by simp
qed

section \<open>Localized names\<close>

lemma find_ko_first:
  "find_ko ns = Some e \<Longrightarrow>
     e = (case List.find (\<lambda>n. language_of n = JStr ''ko'') ns of
            None \<Rightarrow> JUndefined | Some n \<Rightarrow> n)"
proof (induction ns)
  case Nil
  then show ?case by simp
next
  case (Cons n ns)
  from Cons.prems obtain l ln where l: "get n ''language'' = Some l"
    and ln: "get l ''name'' = Some ln"
    and r: "(if ln = JStr ''ko'' then Some n else find_ko ns) = Some e"
    by (auto simp: bind_eq_Some_conv)
  from l ln have lang: "language_of n = ln"
    by (simp add: language_of_def opt_get_def)
  show ?case
  proof (cases "ln = JStr ''ko''")
    case True
    with r lang show ?thesis by simp
  next
    case False
    with r have "find_ko ns = Some e" by simp
    from Cons.IH [OF this] False lang show ?thesis by simp
  qed
qed

lemma opt_get_undefined [simp]: "opt_get JUndefined k = JUndefined"
  by (simp add: opt_get_def)

lemma korean_name_localized:
  assumes "korean_name d = Some ko"
  shows "\<exists>ns. get d ''names'' = Some (JArr ns)
             \<and> (if truthy ko then ko else fb) = localized_name ns fb"
proof -
  from assms obtain nms where n: "get d ''names'' = Some nms"
    by (auto simp: korean_name_def bind_eq_Some_conv)
  with assms obtain ns where ns: "nms = JArr ns"
    by (cases nms) (auto simp: korean_name_def)
  with assms n obtain e where e: "find_ko ns = Some e" and ko: "ko = opt_get e ''name''"
    by (auto simp: korean_name_def bind_eq_Some_conv)
  from find_ko_first [OF e] ko have "(if truthy ko then ko else fb) = localized_name ns fb"
    by (auto simp: localized_name_def split: option.splits)
  with n ns show ?thesis by simp
qed

lemma map_of_set_prop:
  "map_of (set_prop k v ps) k' = (if k' = k then Some v else map_of ps k')"
  by (induction ps) auto

lemma fetch_detail_SomeD:
  assumes "fetch_detail env c pokemonId = Some b"
  shows "\<exists>pokemonData speciesData ko types.
           axios_get env (pokemon_url pokemonId) = Some pokemonData
         \<and> axios_get env (species_url pokemonId) = Some speciesData
         \<and> korean_name speciesData = Some ko
         \<and> detail_types env c pokemonData = Some types
         \<and> b = Object (set_prop ''types'' (Array types)
                 (set_prop ''name''
                    (Plain (if truthy ko then ko else opt_get pokemonData ''name''))
                    (props pokemonData)))"
proof -
  from assms obtain pd sd ko nm types where
    "axios_get env (pokemon_url pokemonId) = Some pd"
    "axios_get env (species_url pokemonId) = Some sd"
    "korean_name sd = Some ko"
    and nm: "(if truthy ko then Some ko else get pd ''name'') = Some nm"
    and "detail_types env c pd = Some types"
    and b: "b = Object (set_prop ''types'' (Array types)
                 (set_prop ''name'' (Plain nm) (props pd)))"
    by (auto simp: fetch_detail_def bind_eq_Some_conv)
  moreover from nm have "nm = (if truthy ko then ko else opt_get pd ''name'')"
    by (auto simp: opt_get_def split: if_splits)
  ultimately show ?thesis by blast
qed

lemma process_item_SomeD:
  assumes "process_item env c ref = Some item"
  shows "\<exists>i pokemonData speciesData ko types.
           item_id ref = Some i
         \<and> axios_get env (pokemon_url (id_text i)) = Some pokemonData
         \<and> axios_get env (species_url (id_text i)) = Some speciesData
         \<and> korean_name speciesData = Some ko
         \<and> type_labels env c pokemonData = Some types
         \<and> field item ''name'' = Some (Plain (if truthy ko then ko else opt_get ref ''name''))
         \<and> field item ''types'' = Some (Array types)"
proof -
  from assms obtain i pd sd ko nm types where
    "item_id ref = Some i"
    "axios_get env (pokemon_url (id_text i)) = Some pd"
    "axios_get env (species_url (id_text i)) = Some sd"
    "korean_name sd = Some ko"
    and nm: "(if truthy ko then Some ko else get ref ''name'') = Some nm"
    and "type_labels env c pd = Some types"
    and f: "field item ''name'' = Some (Plain nm)" "field item ''types'' = Some (Array types)"
    by (auto simp: process_item_def bind_eq_Some_conv)
  moreover from nm have "nm = (if truthy ko then ko else opt_get ref ''name'')"
    by (auto simp: opt_get_def split: if_splits)
  ultimately show ?thesis by blast
qed

text \<open>
  C6, as the program has it. The display name is the name of the first entry of the
  species detail's names whose language is \<^verbatim>\<open>ko\<close>, provided that name is truthy; when
  there is no such entry, or its name is empty or otherwise not truthy, the list
  endpoint gives the reference's \<^verbatim>\<open>name\<close> and the detail endpoint gives the primary
  detail's \<^verbatim>\<open>name\<close>.
\<close>

theorem localized_display_name:
  "(process_item env c ref = Some item \<longrightarrow>
      (\<exists>i speciesData names.
          item_id ref = Some i
        \<and> axios_get env (species_url (id_text i)) = Some speciesData
        \<and> get speciesData ''names'' = Some (JArr names)
        \<and> field item ''name'' = Some (Plain (localized_name names (opt_get ref ''name'')))))
   \<and> (fetch_detail env c pokemonId = Some b \<longrightarrow>
      (\<exists>pokemonData speciesData names.
          axios_get env (pokemon_url pokemonId) = Some pokemonData
        \<and> axios_get env (species_url pokemonId) = Some speciesData
        \<and> get speciesData ''names'' = Some (JArr names)
        \<and> field b ''name''
            = Some (Plain (localized_name names (opt_get pokemonData ''name'')))))"
proof (intro conjI impI)
  assume "process_item env c ref = Some item"
  from process_item_SomeD [OF this] obtain i sd ko where
    i: "item_id ref = Some i"
    and s: "axios_get env (species_url (id_text i)) = Some sd"
    and k: "korean_name sd = Some ko"
    and f: "field item ''name'' = Some (Plain (if truthy ko then ko else opt_get ref ''name''))"
    by blast
  from korean_name_localized [OF k, of "opt_get ref ''name''"] obtain ns where
    "get sd ''names'' = Some (JArr ns)"
    "(if truthy ko then ko else opt_get ref ''name'') = localized_name ns (opt_get ref ''name'')"
    by blast
  with i s f show "\<exists>i speciesData names.
          item_id ref = Some i
        \<and> axios_get env (species_url (id_text i)) = Some speciesData
        \<and> get speciesData ''names'' = Some (JArr names)
        \<and> field item ''name'' = Some (Plain (localized_name names (opt_get ref ''name'')))"
    by auto
next
  assume "fetch_detail env c pokemonId = Some b"
  from fetch_detail_SomeD [OF this] obtain pd sd ko types where
    p: "axios_get env (pokemon_url pokemonId) = Some pd"
    and s: "axios_get env (species_url pokemonId) = Some sd"
    and k: "korean_name sd = Some ko"
    and b: "b = Object (set_prop ''types'' (Array types)
                 (set_prop ''name'' (Plain (if truthy ko then ko else opt_get pd ''name''))
                    (props pd)))"
    by blast
  from b have f: "field b ''name'' = Some (Plain (if truthy ko then ko else opt_get pd ''name''))"
    by (simp add: map_of_set_prop)
  from korean_name_localized [OF k, of "opt_get pd ''name''"] obtain ns where
    "get sd ''names'' = Some (JArr ns)"
    "(if truthy ko then ko else opt_get pd ''name'') = localized_name ns (opt_get pd ''name'')"
    by blast
  with p s f show "\<exists>pokemonData speciesData names.
          axios_get env (pokemon_url pokemonId) = Some pokemonData
        \<and> axios_get env (species_url pokemonId) = Some speciesData
        \<and> get speciesData ''names'' = Some (JArr names)
        \<and> field b ''name'' = Some (Plain (localized_name names (opt_get pokemonData ''name'')))"
    by auto
qed

lemma sample_item_1:
  "process_item sample_engine sample_cache sample_ref_1 =
     Some (Object
       [(''id'', Plain (JStr ''1'')), (''name'', Plain (JStr ''bulbasaur'')),
        (''types'', Array []),
        (''animatedImageUrl'', Plain JNull),
        (''defaultImageUrl'', Plain (JStr ''sprites/1.png''))])"
  by code_simp

lemma sample_detail_1:
  "fetch_detail sample_engine sample_cache ''1'' =
     Some (Object
       [(''id'', Plain (JNum 1)), (''name'', Plain (JStr ''bulbasaur-male'')),
        (''types'', Array []),
        (''sprites'', Plain (JObj [(''front_default'', JStr ''sprites/1.png'')]))])"
  by code_simp

lemma sample_detail_4:
  "fetch_detail sample_engine sample_cache ''4'' =
     Some (Object
       [(''id'', Plain (JNum 4)), (''name'', Plain (JStr ''Pairi'')),
        (''height'', Plain (JNum 6)),
        (''types'', Array [Object [(''englishName'', Plain (JStr ''fire'')),
                                  (''koreanName'', Plain (JStr sample_label))]]),
        (''sprites'', Plain sample_sprites_4)])"
  by code_simp

theorem localized_name_counterexample:
  "axios_get sample_engine (species_url ''1'') = Some (JObj [(''names'', JArr sample_names_1)])
   \<and> find_ko sample_names_1 = Some (hd sample_names_1)
   \<and> language_of (hd sample_names_1) = JStr ''ko''
   \<and> opt_get (hd sample_names_1) ''name'' = JStr []
   \<and> field (Object
       [(''id'', Plain (JStr ''1'')), (''name'', Plain (JStr ''bulbasaur'')),
        (''types'', Array []),
        (''animatedImageUrl'', Plain JNull),
        (''defaultImageUrl'', Plain (JStr ''sprites/1.png''))]) ''name''
       = Some (Plain (JStr ''bulbasaur''))
   \<and> process_item sample_engine sample_cache sample_ref_1 =
     Some (Object
       [(''id'', Plain (JStr ''1'')), (''name'', Plain (JStr ''bulbasaur'')),
        (''types'', Array []),
        (''animatedImageUrl'', Plain JNull),
        (''defaultImageUrl'', Plain (JStr ''sprites/1.png''))])
   \<and> fetch_detail sample_engine sample_cache ''1'' =
     Some (Object
       [(''id'', Plain (JNum 1)), (''name'', Plain (JStr ''bulbasaur-male'')),
        (''types'', Array []),
        (''sprites'', Plain (JObj [(''front_default'', JStr ''sprites/1.png'')]))])"
proof -
  have "axios_get sample_engine (species_url ''1'') = Some (JObj [(''names'', JArr sample_names_1)])"
    by code_simp
  moreover have "find_ko sample_names_1 = Some (hd sample_names_1)" by code_simp
  moreover have "language_of (hd sample_names_1) = JStr ''ko''" by code_simp
  moreover have "opt_get (hd sample_names_1) ''name'' = JStr []" by code_simp
  ultimately show ?thesis using sample_item_1 sample_detail_1 by simp
qed

theorem localized_display_name_witness:
  "(\<exists>i speciesData names.
          item_id sample_ref_4 = Some i
        \<and> axios_get sample_engine (species_url (id_text i)) = Some speciesData
        \<and> get speciesData ''names'' = Some (JArr names)
        \<and> Some (Plain (JStr ''Pairi''))
            = Some (Plain (localized_name names (opt_get sample_ref_4 ''name''))))
   \<and> (\<exists>pokemonData speciesData names.
          axios_get sample_engine (pokemon_url ''1'') = Some pokemonData
        \<and> axios_get sample_engine (species_url ''1'') = Some speciesData
        \<and> get speciesData ''names'' = Some (JArr names)
        \<and> Some (Plain (JStr ''bulbasaur-male''))
            = Some (Plain (localized_name names (opt_get pokemonData ''name''))))"
  using localized_display_name [where env = sample_engine and c = sample_cache
      and ref = sample_ref_4 and pokemonId = "''1''"
      and item = "Object
       [(''id'', Plain (JStr ''4'')), (''name'', Plain (JStr ''Pairi'')),
        (''types'', Array [Plain (JStr sample_label)]),
        (''animatedImageUrl'', Plain (JStr ''animated/4.gif'')),
        (''defaultImageUrl'', Plain (JStr ''artwork/4.png''))]"
      and b = "Object
       [(''id'', Plain (JNum 1)), (''name'', Plain (JStr ''bulbasaur-male'')),
        (''types'', Array []),
        (''sprites'', Plain (JObj [(''front_default'', JStr ''sprites/1.png'')]))]"]
    sample_item_4 sample_detail_1
  by simp

section \<open>Categories of an item\<close>

lemma map_Some_cong:
  assumes "map Some ys = map f xs" and "\<And>x y. f x = Some y \<Longrightarrow> g x = Some y"
  shows "map Some ys = map g xs"
  using assms
proof (induction xs arbitrary: ys)
  case Nil
  then show ?case by simp
next
  case (Cons x xs)
  from Cons.prems(1) obtain y rest where ys: "ys = y # rest" and fx: "f x = Some y"
    and r: "map Some rest = map f xs"
    by (cases ys) auto
  from Cons.prems(2) [OF fx] have gx: "g x = Some y" .
  from Cons.IH [OF r Cons.prems(2)] have "map Some rest = map g xs" .
  with gx ys show ?case by simp
qed

lemma get_types_array:
  assumes "get pd ''types'' = Some (JArr xs)"
  shows "own_prop pd ''types'' = Some (JArr xs) \<and> (\<exists>ps. pd = JObj ps)"
  using assms by (cases pd) (auto split: option.splits)

lemma type_labels_SomeD:
  assumes "type_labels env c pd = Some ls"
  shows "\<exists>xs. own_prop pd ''types'' = Some (JArr xs)
             \<and> map Some ls = map (\<lambda>x. labelFor env c (category_key x)) xs"
proof -
  from assms obtain ts where t: "get pd ''types'' = Some ts"
    by (auto simp: type_labels_def bind_eq_Some_conv)
  with assms obtain xs where xs: "ts = JArr xs"
    by (cases ts) (auto simp: type_labels_def)
  with assms t have "map Some ls =
      map (\<lambda>typeInfo. do { ty \<leftarrow> get typeInfo ''type'';
                            englishTypeName \<leftarrow> get ty ''name'';
                            labelFor env c englishTypeName }) xs"
    by (simp add: type_labels_def those_eq_Some)
  then have m: "map Some ls = map (\<lambda>x. labelFor env c (category_key x)) xs"
    by (rule map_Some_cong) (auto simp: bind_eq_Some_conv category_key_def opt_get_def)
  from t xs have "own_prop pd ''types'' = Some (JArr xs)"
    using get_types_array [of pd xs] by simp
  with m show ?thesis by (intro exI conjI)
qed

lemma detail_types_SomeD:
  assumes "detail_types env c pd = Some ls"
  shows "\<exists>xs ps. pd = JObj ps \<and> own_prop pd ''types'' = Some (JArr xs)
             \<and> map Some ls = map (type_pair env c) xs"
proof -
  from assms obtain ts where t: "get pd ''types'' = Some ts"
    by (auto simp: detail_types_def bind_eq_Some_conv)
  with assms obtain xs where xs: "ts = JArr xs"
    by (cases ts) (auto simp: detail_types_def)
  with assms t have "map Some ls =
      map (\<lambda>typeInfo. do { ty \<leftarrow> get typeInfo ''type'';
                            englishTypeName \<leftarrow> get ty ''name'';
                            l \<leftarrow> labelFor env c englishTypeName;
                            Some (Object [(''englishName'', Plain englishTypeName),
                                          (''koreanName'', l)]) }) xs"
    by (simp add: detail_types_def those_eq_Some)
  then have m: "map Some ls = map (type_pair env c) xs"
    by (rule map_Some_cong)
      (auto simp: bind_eq_Some_conv category_key_def opt_get_def type_pair_def)
  from t xs obtain ps where "pd = JObj ps" and "own_prop pd ''types'' = Some (JArr xs)"
    using get_types_array [of pd xs] by auto
  with m show ?thesis by (intro exI conjI)
qed

section \<open>The detail record\<close>

lemma api_pokemon_200:
  "status (api_pokemon env c i) = 200 \<Longrightarrow>
     \<exists>b. fetch_detail env c i = Some b \<and> api_pokemon env c i = \<lparr>status = 200, body = b\<rparr>"
  by (cases "fetch_detail env c i") (simp_all add: api_pokemon_def)

lemma field_props:
  "field (Object (props (JObj ps))) k = map_option Plain (own_prop (JObj ps) k)"
  by (simp add: map_of_map)

text \<open>
  C7. A detail request that succeeds answers with the own properties of the upstream
  primary detail, of which \<^verbatim>\<open>name\<close> is the localized name and \<^verbatim>\<open>types\<close> is the list of
  paired entries (category key and label) of the primary detail's categories, in their
  order; every property of any other name is the upstream one, and no other property is
  there.
\<close>

theorem detail_passes_through:
  assumes "status (api_pokemon env c pokemonId) = 200"
  shows "\<exists>pokemonData speciesData names xs types.
           axios_get env (pokemon_url pokemonId) = Some pokemonData
         \<and> axios_get env (species_url pokemonId) = Some speciesData
         \<and> get speciesData ''names'' = Some (JArr names)
         \<and> own_prop pokemonData ''types'' = Some (JArr xs)
         \<and> field (body (api_pokemon env c pokemonId)) ''name''
             = Some (Plain (localized_name names (opt_get pokemonData ''name'')))
         \<and> field (body (api_pokemon env c pokemonId)) ''types'' = Some (Array types)
         \<and> map Some types = map (type_pair env c) xs
         \<and> (\<forall>k. k \<noteq> ''name'' \<and> k \<noteq> ''types'' \<longrightarrow>
               field (body (api_pokemon env c pokemonId)) k
                 = map_option Plain (own_prop pokemonData k))"
proof -
  from api_pokemon_200 [OF assms] obtain b where
    f: "fetch_detail env c pokemonId = Some b"
    and a: "body (api_pokemon env c pokemonId) = b"
    by auto
  from fetch_detail_SomeD [OF f] obtain pd sd ko types where
    p: "axios_get env (pokemon_url pokemonId) = Some pd"
    and s: "axios_get env (species_url pokemonId) = Some sd"
    and k: "korean_name sd = Some ko"
    and t: "detail_types env c pd = Some types"
    and b: "b = Object (set_prop ''types'' (Array types)
                 (set_prop ''name'' (Plain (if truthy ko then ko else opt_get pd ''name''))
                    (props pd)))"
    by blast
  from korean_name_localized [OF k, of "opt_get pd ''name''"] obtain ns where
    n: "get sd ''names'' = Some (JArr ns)"
    and l: "(if truthy ko then ko else opt_get pd ''name'') = localized_name ns (opt_get pd ''name'')"
    by blast
  from detail_types_SomeD [OF t] obtain xs ps where
    pd: "pd = JObj ps" and x: "own_prop pd ''types'' = Some (JArr xs)"
    and m: "map Some types = map (type_pair env c) xs"
    by blast
  from b l have fn: "field b ''name'' = Some (Plain (localized_name ns (opt_get pd ''name'')))"
    by (simp add: map_of_set_prop)
  from b have ft: "field b ''types'' = Some (Array types)"
    by (simp add: map_of_set_prop)
  have fo: "\<forall>k. k \<noteq> ''name'' \<and> k \<noteq> ''types'' \<longrightarrow> field b k = map_option Plain (own_prop pd k)"
    using b pd field_props [of ps] by (simp add: map_of_set_prop)
  show ?thesis unfolding a using p s n x fn ft m fo
    by (intro exI conjI) assumption+
qed

theorem detail_passes_through_witness:
  "\<exists>pokemonData speciesData names xs types.
           axios_get sample_engine (pokemon_url ''4'') = Some pokemonData
         \<and> axios_get sample_engine (species_url ''4'') = Some speciesData
         \<and> get speciesData ''names'' = Some (JArr names)
         \<and> own_prop pokemonData ''types'' = Some (JArr xs)
         \<and> field (body (api_pokemon sample_engine sample_cache ''4'')) ''name''
             = Some (Plain (localized_name names (opt_get pokemonData ''name'')))
         \<and> field (body (api_pokemon sample_engine sample_cache ''4'')) ''types''
             = Some (Array types)
         \<and> map Some types = map (type_pair sample_engine sample_cache) xs
         \<and> (\<forall>k. k \<noteq> ''name'' \<and> k \<noteq> ''types'' \<longrightarrow>
               field (body (api_pokemon sample_engine sample_cache ''4'')) k
                 = map_option Plain (own_prop pokemonData k))"
proof -
  have "status (api_pokemon sample_engine sample_cache ''4'') = 200"
    by (simp add: api_pokemon_def sample_detail_4)
  then show ?thesis by (rule detail_passes_through)
qed

section \<open>Numerals\<close>

lemma digit_value_digit: "d < 10 \<Longrightarrow> digit_value (''0123456789'' ! d) = d"
proof -
  assume "d < 10"
  then have "d \<in> {0, 1, 2, 3, 4, 5, 6, 7, 8, 9}" by auto
  then show ?thesis by (auto simp: digit_value_def)
qed

lemma show_nat_not_Nil: "show_nat n \<noteq> []"
  by (subst show_nat.simps) simp

lemma show_nat_digits: "c \<in> set (show_nat n) \<Longrightarrow> digit_value c < 10"
proof (induction n arbitrary: c rule: show_nat.induct)
  case (1 n)
  show ?case
  proof (cases "n < 10")
    case True
    with "1.prems" show ?thesis
      by (subst (asm) show_nat.simps) (simp add: digit_value_digit)
  next
    case False
    with "1.prems" have "c \<in> set (show_nat (n div 10)) \<or> c = ''0123456789'' ! (n mod 10)"
      by (subst (asm) show_nat.simps) auto
    then show ?thesis
    proof
      assume "c \<in> set (show_nat (n div 10))"
      with False "1.IH" show ?thesis by simp
    next
      assume "c = ''0123456789'' ! (n mod 10)"
      then show ?thesis by (simp add: digit_value_digit)
    qed
  qed
qed

lemma show_nat_value: "foldl (\<lambda>a c. a * 10 + digit_value c) 0 (show_nat n) = n"
proof (induction n rule: show_nat.induct)
  case (1 n)
  show ?case
  proof (cases "n < 10")
    case True
    then show ?thesis by (subst show_nat.simps) (simp add: digit_value_digit)
  next
    case False
    with "1.IH" show ?thesis
      by (subst show_nat.simps) (simp add: digit_value_digit)
  qed
qed

lemma digit_not_space: "digit_value c < 10 \<or> c = CHR ''-'' \<Longrightarrow> w \<in> set white_space \<Longrightarrow> hd w \<noteq> c"
  by (auto simp: white_space_def digit_value_def)

lemma trimStart_Nil: "trimStart [] = []"
  by (subst trimStart.simps) (simp add: white_space_def)

lemma trimStart_no_space:
  assumes "\<And>w. w \<in> set white_space \<Longrightarrow> hd w \<noteq> c"
  shows "trimStart (c # cs) = c # cs"
proof -
  have "\<not> (\<exists>w \<in> set white_space. prefix w (c # cs))"
  proof
    assume "\<exists>w \<in> set white_space. prefix w (c # cs)"
    then obtain w where w: "w \<in> set white_space" and p: "prefix w (c # cs)" by blast
    from w have "w \<noteq> []" by (auto simp: white_space_def)
    with p have "hd w = c" by (cases w) auto
    with assms [OF w] show False by simp
  qed
  then have "List.find (\<lambda>w. prefix w (c # cs)) white_space = None"
    by (simp add: find_None_iff)
  then show ?thesis by (subst trimStart.simps) simp
qed

lemma not_hex_numeral:
  assumes "rest = [] \<or> (hd rest \<noteq> CHR ''x'' \<and> hd rest \<noteq> CHR ''X'')"
  shows "\<not> prefix ''0x'' (show_nat n @ rest) \<and> \<not> prefix ''0X'' (show_nat n @ rest)"
proof (cases "show_nat n")
  case Nil
  then show ?thesis using show_nat_not_Nil by simp
next
  case (Cons d ds)
  show ?thesis
  proof (cases ds)
    case Nil
    with Cons assms show ?thesis by (cases rest) auto
  next
    case (Cons e es)
    with \<open>show_nat n = d # ds\<close> have "e \<in> set (show_nat n)" by simp
    then have "digit_value e < 10" by (rule show_nat_digits)
    then have "e \<noteq> CHR ''x'' \<and> e \<noteq> CHR ''X''" by (auto simp: digit_value_def)
    with Cons \<open>show_nat n = d # ds\<close> show ?thesis by auto
  qed
qed

lemma takeWhile_numeral:
  assumes "rest = [] \<or> 10 \<le> digit_value (hd rest)"
  shows "takeWhile (\<lambda>c. digit_value c < 10) (show_nat n @ rest) = show_nat n"
proof -
  from assms have "takeWhile (\<lambda>c. digit_value c < 10) rest = []"
    by (cases rest) auto
  then show ?thesis by (simp add: takeWhile_append2 show_nat_digits)
qed

lemma hd_show_nat: "digit_value (hd (show_nat n)) < 10"
  using show_nat_digits [of "hd (show_nat n)" n] show_nat_not_Nil [of n] by simp

lemma parseInt_decimal:
  assumes "trimStart str = s"
    and "(if s \<noteq> [] \<and> (hd s = CHR ''+'' \<or> hd s = CHR ''-'') then tl s else s) = s1"
    and "\<not> prefix ''0x'' s1" and "\<not> prefix ''0X'' s1"
    and "takeWhile (\<lambda>c. digit_value c < 10) s1 = ds"
  shows "parseInt str =
           (if ds = [] then NaN
            else Num ((if s \<noteq> [] \<and> hd s = CHR ''-'' then - 1 else 1)
                       * int (foldl (\<lambda>a c. a * 10 + digit_value c) 0 ds)))"
  unfolding parseInt_def Let_def
  by (simp only: assms) (simp add: assms)

lemma parseInt_nat:
  assumes "rest = [] \<or> (10 \<le> digit_value (hd rest) \<and> hd rest \<noteq> CHR ''x'' \<and> hd rest \<noteq> CHR ''X'')"
  shows "parseInt (show_nat n @ rest) = Num (int n)"
proof -
  obtain d ds where s: "show_nat n = d # ds"
    using show_nat_not_Nil [of n] by (cases "show_nat n") auto
  from hd_show_nat [of n] s have d: "digit_value d < 10" by simp
  then have "trimStart (d # ds @ rest) = d # ds @ rest"
    by (intro trimStart_no_space digit_not_space) simp_all
  with s have t: "trimStart (show_nat n @ rest) = show_nat n @ rest" by simp
  from d have "d \<noteq> CHR ''+'' \<and> d \<noteq> CHR ''-''" by (auto simp: digit_value_def)
  with s have sg: "(if show_nat n @ rest \<noteq> [] \<and> (hd (show_nat n @ rest) = CHR ''+''
        \<or> hd (show_nat n @ rest) = CHR ''-'') then tl (show_nat n @ rest)
       else show_nat n @ rest) = show_nat n @ rest"
    and ng: "\<not> (show_nat n @ rest \<noteq> [] \<and> hd (show_nat n @ rest) = CHR ''-'')"
    by simp_all
  from assms have hx: "\<not> prefix ''0x'' (show_nat n @ rest)" "\<not> prefix ''0X'' (show_nat n @ rest)"
    using not_hex_numeral [of rest n] by auto
  from assms have tw: "takeWhile (\<lambda>c. digit_value c < 10) (show_nat n @ rest) = show_nat n"
    by (intro takeWhile_numeral) auto
  from parseInt_decimal [OF t sg hx tw] ng show ?thesis
    by (simp add: show_nat_not_Nil show_nat_value)
qed

lemma parseInt_numeral:
  assumes "rest = [] \<or> (10 \<le> digit_value (hd rest) \<and> hd rest \<noteq> CHR ''x'' \<and> hd rest \<noteq> CHR ''X'')"
  shows "parseInt (show_int n @ rest) = Num n"
proof (cases "n < 0")
  case False
  with parseInt_nat [OF assms, of "nat n"] show ?thesis by (simp add: show_int_def)
next
  case True
  let ?k = "nat (- n)"
  let ?s = "CHR ''-'' # show_nat ?k @ rest"
  have t: "trimStart ?s = ?s"
    by (intro trimStart_no_space digit_not_space) simp_all
  have sg: "(if ?s \<noteq> [] \<and> (hd ?s = CHR ''+'' \<or> hd ?s = CHR ''-'') then tl ?s else ?s)
      = show_nat ?k @ rest"
    by simp
  from assms have hx: "\<not> prefix ''0x'' (show_nat ?k @ rest)" "\<not> prefix ''0X'' (show_nat ?k @ rest)"
    using not_hex_numeral [of rest ?k] by auto
  from assms have tw: "takeWhile (\<lambda>c. digit_value c < 10) (show_nat ?k @ rest) = show_nat ?k"
    by (intro takeWhile_numeral) auto
  from parseInt_decimal [OF t sg hx tw] True have "parseInt ?s = Num n"
    by (simp add: show_nat_not_Nil show_nat_value)
  with True show ?thesis by (simp add: show_int_def)
qed

lemma parseInt_no_digit:
  assumes "after_sign s = [] \<or> 10 \<le> digit_value (hd (after_sign s))"
  shows "parseInt s = NaN"
proof -
  let ?u = "after_sign s"
  from assms have nh: "\<not> prefix ''0x'' ?u \<and> \<not> prefix ''0X'' ?u"
    by (cases ?u) (auto simp: digit_value_def)
  from assms have "takeWhile (\<lambda>c. digit_value c < 10) ?u = []"
    by (cases ?u) auto
  with parseInt_decimal [OF refl _ _ _ refl, of s ?u] nh show ?thesis
    by (simp add: after_sign_def Let_def)
qed

lemma parseInt_undefined: "parseInt ''undefined'' = NaN"
  by code_simp

section \<open>Query parameters\<close>

lemma offset_param_Some:
  "parseInt (qs_text v) = Num n \<Longrightarrow> offset_param \<lparr>offset = Some v, limit = l\<rparr> = Num n"
  by (simp add: offset_param_def param_text_def num_or_def)

lemma limit_param_Some:
  "parseInt (qs_text v) = Num n \<Longrightarrow>
     limit_param \<lparr>offset = off, limit = Some v\<rparr> = (if n = 0 then Num 20 else Num n)"
  by (simp add: limit_param_def param_text_def num_or_def)

text \<open>
  C5, as the program has it. The offset and the limit are 0 and 20 when the parameter
  is absent, and when its text, after leading white space and an optional sign, does not
  begin with a digit. When the text is the decimal numeral of an integer \<open>n\<close>, alone or
  followed by text that begins with a character that is neither a digit nor \<^verbatim>\<open>x\<close> nor
  \<^verbatim>\<open>X\<close>, the offset is \<open>n\<close>, and the limit is \<open>n\<close> unless \<open>n\<close> is 0, in which case the limit
  is 20.
\<close>

theorem query_defaults:
  "offset_param \<lparr>offset = None, limit = l\<rparr> = Num 0
   \<and> limit_param \<lparr>offset = off, limit = None\<rparr> = Num 20
   \<and> (rest = [] \<or> (10 \<le> digit_value (hd rest) \<and> hd rest \<noteq> CHR ''x'' \<and> hd rest \<noteq> CHR ''X'')
        \<longrightarrow> offset_param \<lparr>offset = Some (QStr (show_int n @ rest)), limit = l\<rparr> = Num n
          \<and> limit_param \<lparr>offset = off, limit = Some (QStr (show_int n @ rest))\<rparr>
              = (if n = 0 then Num 20 else Num n))
   \<and> (after_sign s = [] \<or> 10 \<le> digit_value (hd (after_sign s))
        \<longrightarrow> offset_param \<lparr>offset = Some (QStr s), limit = l\<rparr> = Num 0
          \<and> limit_param \<lparr>offset = off, limit = Some (QStr s)\<rparr> = Num 20)"
proof (intro conjI impI)
  show "offset_param \<lparr>offset = None, limit = l\<rparr> = Num 0"
    by (simp add: offset_param_def param_text_def num_or_def parseInt_undefined)
  show "limit_param \<lparr>offset = off, limit = None\<rparr> = Num 20"
    by (simp add: limit_param_def param_text_def num_or_def parseInt_undefined)
next
  assume r: "rest = [] \<or> (10 \<le> digit_value (hd rest) \<and> hd rest \<noteq> CHR ''x'' \<and> hd rest \<noteq> CHR ''X'')"
  from parseInt_numeral [OF r, of n]
  show "offset_param \<lparr>offset = Some (QStr (show_int n @ rest)), limit = l\<rparr> = Num n"
    by (intro offset_param_Some) simp
  from parseInt_numeral [OF r, of n]
  show "limit_param \<lparr>offset = off, limit = Some (QStr (show_int n @ rest))\<rparr>
          = (if n = 0 then Num 20 else Num n)"
    by (intro limit_param_Some) simp
next
  assume a: "after_sign s = [] \<or> 10 \<le> digit_value (hd (after_sign s))"
  from parseInt_no_digit [OF a]
  show "offset_param \<lparr>offset = Some (QStr s), limit = l\<rparr> = Num 0"
    by (simp add: offset_param_def param_text_def num_or_def)
  from parseInt_no_digit [OF a]
  show "limit_param \<lparr>offset = off, limit = Some (QStr s)\<rparr> = Num 20"
    by (simp add: limit_param_def param_text_def num_or_def)
qed

theorem query_defaults_counterexample:
  "numeric_text ''0''
   \<and> parseInt ''0'' = Num 0
   \<and> limit_param \<lparr>offset = None, limit = Some (QStr ''0'')\<rparr> = Num 20
   \<and> \<not> numeric_text ''12abc''
   \<and> offset_param \<lparr>offset = Some (QStr ''12abc''), limit = None\<rparr> = Num 12
   \<and> limit_param \<lparr>offset = None, limit = Some (QStr ''12abc'')\<rparr> = Num 12"
  by code_simp

theorem query_defaults_witness:
  "(10 \<le> digit_value (hd ''px'') \<and> hd ''px'' \<noteq> CHR ''x'' \<and> hd ''px'' \<noteq> CHR ''X'')
   \<and> offset_param \<lparr>offset = Some (QStr (show_int 25 @ ''px'')), limit = None\<rparr> = Num 25
   \<and> limit_param \<lparr>offset = None, limit = Some (QStr (show_int 25 @ ''px''))\<rparr> = Num 25
   \<and> 10 \<le> digit_value (hd (after_sign '' -abc''))
   \<and> offset_param \<lparr>offset = Some (QStr '' -abc''), limit = None\<rparr> = Num 0
   \<and> limit_param \<lparr>offset = None, limit = Some (QStr '' -abc'')\<rparr> = Num 20"
proof -
  have h1: "10 \<le> digit_value (hd ''px'') \<and> hd ''px'' \<noteq> CHR ''x'' \<and> hd ''px'' \<noteq> CHR ''X''"
    by code_simp
  have h2: "10 \<le> digit_value (hd (after_sign '' -abc''))" by code_simp
  from query_defaults [where rest = "''px''" and n = 25 and s = "'' -abc''" and l = None
      and off = None] h1 h2
  show ?thesis by simp
qed

section \<open>Negative parameters\<close>





section \<open>Writes to the cache\<close>

lemma cache_put_own:
  "own (cache_put c k v) k' = Some v' \<Longrightarrow> own c k' = Some v' \<or> (k' = k \<and> v' = v)"
  by (cases v) (auto simp: cache_put_def split: if_splits)

lemma cache_put_keeps: "own c k' \<noteq> None \<Longrightarrow> own (cache_put c k v) k' \<noteq> None"
  by (cases v) (auto simp: cache_put_def)

lemma apply_write_own:
  "own (apply_write c w) k = Some v \<Longrightarrow> own c k = Some v \<or> w = Some (Some (k, v))"
  by (cases "(c, w)" rule: apply_write.cases) (auto dest: cache_put_own)

lemma apply_write_keeps: "own c k \<noteq> None \<Longrightarrow> own (apply_write c w) k \<noteq> None"
  by (cases "(c, w)" rule: apply_write.cases) (auto simp: cache_put_keeps)

lemma foldl_apply_write_own:
  "own (foldl apply_write c ws) k = Some v \<Longrightarrow>
     own c k = Some v \<or> Some (Some (k, v)) \<in> set ws"
proof (induction ws arbitrary: c)
  case Nil
  then show ?case by simp
next
  case (Cons w ws)
  from Cons.prems have "own (foldl apply_write (apply_write c w) ws) k = Some v" by simp
  from Cons.IH [OF this] apply_write_own [of c w k v] show ?case by auto
qed

lemma foldl_apply_write_keeps:
  "own c k \<noteq> None \<Longrightarrow> own (foldl apply_write c ws) k \<noteq> None"
proof (induction ws arbitrary: c)
  case Nil
  then show ?case by simp
next
  case (Cons w ws)
  from Cons.prems have "own (apply_write c w) k \<noteq> None" by (rule apply_write_keeps)
  from Cons.IH [OF this] show ?case by simp
qed

lemma type_write_SomeD:
  assumes "type_write env t = Some (Some (k, v))"
  shows "truthy v \<and> to_text env (opt_get t ''name'') = Some k
       \<and> (\<exists>detail names.
             axios_get env (opt_get t ''url'') = Some detail
           \<and> get detail ''names'' = Some (JArr names)
           \<and> v = localized_name names JUndefined)"
proof -
  from assms obtain url detail ko where u: "get t ''url'' = Some url"
    and d: "axios_get env url = Some detail"
    and k: "korean_name detail = Some ko"
    and r: "(if truthy ko then
              do { n \<leftarrow> get t ''name''; k \<leftarrow> to_text env n; Some (Some (k, ko)) }
            else Some None) = Some (Some (k, v))"
    by (auto simp: type_write_def bind_eq_Some_conv)
  from r have tr: "truthy ko" by (auto split: if_splits)
  with r obtain n where n: "get t ''name'' = Some n" and tk: "to_text env n = Some k"
    and v: "v = ko"
    by (auto simp: bind_eq_Some_conv)
  from korean_name_localized [OF k, of JUndefined] tr obtain names where
    "get detail ''names'' = Some (JArr names)" "ko = localized_name names JUndefined"
    by auto
  with u d n tk v tr show ?thesis by (auto simp: opt_get_def)
qed

lemma loadTypeTranslations_own:
  assumes "own (fst (loadTypeTranslations env sched c)) k = Some v"
  shows "own c k = Some v
       \<or> (\<exists>listData types. axios_get env (JStr type_list_url) = Some listData
            \<and> get listData ''results'' = Some (JArr types)
            \<and> Some (Some (k, v)) \<in> type_write env ` set (sched types))"
proof (cases "axios_get env (JStr type_list_url)")
  case None
  with assms show ?thesis by (simp add: loadTypeTranslations_def)
next
  case (Some listData)
  show ?thesis
  proof (cases "get listData ''results''")
    case None
    with Some assms show ?thesis by (simp add: loadTypeTranslations_def)
  next
    case (Some rs)
    show ?thesis
    proof (cases "\<exists>types. rs = JArr types")
      case False
      with Some \<open>axios_get env (JStr type_list_url) = Some listData\<close> assms show ?thesis
        by (cases rs) (simp_all add: loadTypeTranslations_def)
    next
      case True
      then obtain types where rs: "rs = JArr types" by blast
      with Some \<open>axios_get env (JStr type_list_url) = Some listData\<close> assms
      have "own (foldl apply_write c (map (type_write env) (sched types))) k = Some v"
        by (simp add: loadTypeTranslations_def Let_def)
      from foldl_apply_write_own [OF this] rs Some
        \<open>axios_get env (JStr type_list_url) = Some listData\<close>
      show ?thesis by auto
    qed
  qed
qed

lemma loadTypeTranslations_keeps:
  assumes "own c k \<noteq> None"
  shows "own (fst (loadTypeTranslations env sched c)) k \<noteq> None"
proof -
  have "fst (loadTypeTranslations env sched c) = c
      \<or> (\<exists>ws. fst (loadTypeTranslations env sched c) = foldl apply_write c ws)"
    by (auto simp: loadTypeTranslations_def Let_def split: option.splits json.splits)
  with assms foldl_apply_write_keeps [OF assms] show ?thesis by auto
qed

lemma loadTypeTranslations_fails:
  "axios_get env (JStr type_list_url) = None \<Longrightarrow>
     loadTypeTranslations env sched c = (c, [InitStart, InitError])"
  by (simp add: loadTypeTranslations_def)

text \<open>
  C10, as the program has it. After population, every own entry of the cache either
  was there before or holds, under the text of a category's name, a truthy value that
  is the localized label of that category's detail payload: the name of the first entry
  of its names in the target locale. No entry that was there before is gone. A category
  without a truthy label writes nothing. The value is whatever the payload carries, a
  string or not.
\<close>

theorem population_entries:
  "(own (fst (loadTypeTranslations env sched c)) k = Some v \<longrightarrow>
      own c k = Some v
    \<or> (truthy v
       \<and> (\<exists>listData types t detail names.
             axios_get env (JStr type_list_url) = Some listData
           \<and> get listData ''results'' = Some (JArr types)
           \<and> t \<in> set (sched types)
           \<and> to_text env (opt_get t ''name'') = Some k
           \<and> axios_get env (opt_get t ''url'') = Some detail
           \<and> get detail ''names'' = Some (JArr names)
           \<and> v = localized_name names JUndefined)))
   \<and> (own c k' \<noteq> None \<longrightarrow> own (fst (loadTypeTranslations env sched c)) k' \<noteq> None)
   \<and> (korean_name detail' = Some v' \<and> \<not> truthy v' \<and> axios_get env (opt_get t' ''url'') = Some detail'
        \<longrightarrow> apply_write c (type_write env t') = c)"
proof (intro conjI impI)
  assume "own (fst (loadTypeTranslations env sched c)) k = Some v"
  from loadTypeTranslations_own [OF this]
  show "own c k = Some v
    \<or> (truthy v
       \<and> (\<exists>listData types t detail names.
             axios_get env (JStr type_list_url) = Some listData
           \<and> get listData ''results'' = Some (JArr types)
           \<and> t \<in> set (sched types)
           \<and> to_text env (opt_get t ''name'') = Some k
           \<and> axios_get env (opt_get t ''url'') = Some detail
           \<and> get detail ''names'' = Some (JArr names)
           \<and> v = localized_name names JUndefined))"
  proof
    assume "own c k = Some v"
    then show ?thesis by simp
  next
    assume "\<exists>listData types. axios_get env (JStr type_list_url) = Some listData
            \<and> get listData ''results'' = Some (JArr types)
            \<and> Some (Some (k, v)) \<in> type_write env ` set (sched types)"
    then obtain listData types t where l: "axios_get env (JStr type_list_url) = Some listData"
      and r: "get listData ''results'' = Some (JArr types)"
      and t: "t \<in> set (sched types)" and w: "type_write env t = Some (Some (k, v))"
      by auto
    from type_write_SomeD [OF w] l r t show ?thesis by blast
  qed
next
  assume "own c k' \<noteq> None"
  then show "own (fst (loadTypeTranslations env sched c)) k' \<noteq> None"
    by (rule loadTypeTranslations_keeps)
next
  assume a: "korean_name detail' = Some v' \<and> \<not> truthy v'
      \<and> axios_get env (opt_get t' ''url'') = Some detail'"
  show "apply_write c (type_write env t') = c"
  proof (cases "get t' ''url''")
    case None
    then show ?thesis by (simp add: type_write_def)
  next
    case (Some u)
    then have "opt_get t' ''url'' = u" by (rule get_Some_opt_get)
    with a Some show ?thesis by (simp add: type_write_def)
  qed
qed


theorem population_counterexample:
  "own (fst (loadTypeTranslations unchecked_engine id empty_cache)) ''fire'' = Some (JNum 7)"
  by code_simp

theorem population_entries_witness:
  "own (fst (loadTypeTranslations sample_engine rev sample_cache_before)) ''fire''
     = Some (JStr sample_label)
   \<and> own sample_cache_before ''fire'' \<noteq> Some (JStr sample_label)
   \<and> truthy (JStr sample_label)
   \<and> (\<exists>listData types t detail names.
         axios_get sample_engine (JStr type_list_url) = Some listData
       \<and> get listData ''results'' = Some (JArr types)
       \<and> t \<in> set (rev types)
       \<and> to_text sample_engine (opt_get t ''name'') = Some ''fire''
       \<and> axios_get sample_engine (opt_get t ''url'') = Some detail
       \<and> get detail ''names'' = Some (JArr names)
       \<and> JStr sample_label = localized_name names JUndefined)
   \<and> own sample_cache_before ''normal'' \<noteq> None
   \<and> own (fst (loadTypeTranslations sample_engine rev sample_cache_before)) ''normal'' \<noteq> None
   \<and> apply_write sample_cache_before (type_write sample_engine sample_type_water)
       = sample_cache_before"
proof -
  have h1: "own (fst (loadTypeTranslations sample_engine rev sample_cache_before)) ''fire''
     = Some (JStr sample_label)"
    by code_simp
  have h2: "own sample_cache_before ''fire'' \<noteq> Some (JStr sample_label)"
    by (simp add: sample_cache_before_def)
  have h3: "own sample_cache_before ''normal'' \<noteq> None"
    by (simp add: sample_cache_before_def)
  have h4: "korean_name sample_detail_water = Some JUndefined \<and> \<not> truthy JUndefined
      \<and> axios_get sample_engine (opt_get sample_type_water ''url'') = Some sample_detail_water"
    by code_simp
  note t = population_entries [where env = sample_engine and sched = rev
      and c = sample_cache_before and k = "''fire''" and v = "JStr sample_label"
      and k' = "''normal''" and t' = sample_type_water and detail' = sample_detail_water
      and v' = JUndefined]
  from t [THEN conjunct1, THEN mp, OF h1] h2
  have a: "truthy (JStr sample_label)
       \<and> (\<exists>listData types t detail names.
         axios_get sample_engine (JStr type_list_url) = Some listData
       \<and> get listData ''results'' = Some (JArr types)
       \<and> t \<in> set (rev types)
       \<and> to_text sample_engine (opt_get t ''name'') = Some ''fire''
       \<and> axios_get sample_engine (opt_get t ''url'') = Some detail
       \<and> get detail ''names'' = Some (JArr names)
       \<and> JStr sample_label = localized_name names JUndefined)"
    by blast
  note b = t [THEN conjunct2, THEN conjunct1, THEN mp, OF h3]
  note c = t [THEN conjunct2, THEN conjunct2, THEN mp, OF h4]
  from h1 h2 a h3 b c show ?thesis by (intro conjI) simp_all
qed

section \<open>Lookups\<close>

lemma population_truthy:
  assumes "own (fst (loadTypeTranslations env sched empty_cache)) k = Some v"
  shows "truthy v"
proof -
  from loadTypeTranslations_own [OF assms] obtain t where
    "type_write env t = Some (Some (k, v))"
    by (auto simp: empty_cache_def)
  from type_write_SomeD [OF this] show ?thesis by simp
qed

lemma labelFor_string: "\<exists>l. labelFor env c (JStr k) = Some l"
  by (simp add: labelFor_def)

lemma labelFor_stored:
  "own c k = Some v \<Longrightarrow> truthy v \<Longrightarrow> labelFor env c (JStr k) = Some (Plain v)"
  by (simp add: labelFor_def cache_get_def js_or_def)

lemma labelFor_absent:
  "own c k = None \<Longrightarrow> parent c = None \<Longrightarrow> k \<notin> set object_prototype \<Longrightarrow>
     labelFor env c (JStr k) = Some (Plain (JStr k))"
  by (simp add: labelFor_def cache_get_def from_object_prototype_def js_or_def)

lemma labelFor_empty_cache:
  "k \<notin> set object_prototype \<Longrightarrow> labelFor env empty_cache (JStr k) = Some (Plain (JStr k))"
  by (rule labelFor_absent) (simp_all add: empty_cache_def)

lemma labelFor_None_iff: "labelFor env c n = None \<longleftrightarrow> to_text env n = None"
  by (cases "to_text env n") (simp_all add: labelFor_def)

text \<open>
  C2, as the program has it, for the names that are not names of properties every
  object inherits. The lookup of a string key never fails. For a key under which
  population stored a label, it gives that label, which is truthy (a non-empty string
  when the upstream label is a string). For a key that is not in the cache it gives the
  key itself. The \<^verbatim>\<open>types\<close> of a record of the list endpoint are the lookups of the
  category keys of the reference's primary detail, in their order, and the \<^verbatim>\<open>types\<close> of
  a detail response pair each category key of the primary detail with its lookup.
\<close>

theorem labelFor_lookup:
  "(\<exists>l. labelFor env c (JStr k) = Some l)
   \<and> (c = fst (loadTypeTranslations env' sched empty_cache) \<and> own c k = Some v
        \<longrightarrow> truthy v \<and> labelFor env c (JStr k) = Some (Plain v))
   \<and> (own c ka = None \<and> parent c = None \<and> ka \<notin> set object_prototype
        \<longrightarrow> labelFor env c (JStr ka) = Some (Plain (JStr ka)))
   \<and> (process_item env c ref = Some item
        \<longrightarrow> (\<exists>i pokemonData xs ls.
               item_id ref = Some i
             \<and> axios_get env (pokemon_url (id_text i)) = Some pokemonData
             \<and> own_prop pokemonData ''types'' = Some (JArr xs)
             \<and> field item ''types'' = Some (Array ls)
             \<and> map Some ls = map (\<lambda>x. labelFor env c (category_key x)) xs))
   \<and> (fetch_detail env c pokemonId = Some b
        \<longrightarrow> (\<exists>pokemonData xs ps.
               axios_get env (pokemon_url pokemonId) = Some pokemonData
             \<and> own_prop pokemonData ''types'' = Some (JArr xs)
             \<and> field b ''types'' = Some (Array ps)
             \<and> map Some ps = map (type_pair env c) xs))"
proof (intro conjI impI)
  show "\<exists>l. labelFor env c (JStr k) = Some l" by (rule labelFor_string)
next
  assume a: "c = fst (loadTypeTranslations env' sched empty_cache) \<and> own c k = Some v"
  then show "truthy v" using population_truthy by blast
  with a show "labelFor env c (JStr k) = Some (Plain v)"
    using labelFor_stored [of c k v env] by blast
next
  assume "own c ka = None \<and> parent c = None \<and> ka \<notin> set object_prototype"
  then show "labelFor env c (JStr ka) = Some (Plain (JStr ka))"
    by (simp add: labelFor_absent)
next
  assume "process_item env c ref = Some item"
  from process_item_SomeD [OF this] obtain i pd ls where
    i: "item_id ref = Some i"
    and p: "axios_get env (pokemon_url (id_text i)) = Some pd"
    and t: "type_labels env c pd = Some ls"
    and f: "field item ''types'' = Some (Array ls)"
    by blast
  from type_labels_SomeD [OF t] obtain xs where
    x: "own_prop pd ''types'' = Some (JArr xs)"
    and m: "map Some ls = map (\<lambda>x. labelFor env c (category_key x)) xs"
    by blast
  show "\<exists>i pokemonData xs ls.
               item_id ref = Some i
             \<and> axios_get env (pokemon_url (id_text i)) = Some pokemonData
             \<and> own_prop pokemonData ''types'' = Some (JArr xs)
             \<and> field item ''types'' = Some (Array ls)
             \<and> map Some ls = map (\<lambda>x. labelFor env c (category_key x)) xs"
    using i p x f m by (intro exI conjI)
next
  assume "fetch_detail env c pokemonId = Some b"
  from fetch_detail_SomeD [OF this] obtain pd ko ps where
    p: "axios_get env (pokemon_url pokemonId) = Some pd"
    and t: "detail_types env c pd = Some ps"
    and b: "b = Object (set_prop ''types'' (Array ps)
                 (set_prop ''name'' (Plain (if truthy ko then ko else opt_get pd ''name''))
                    (props pd)))"
    by blast
  from b have f: "field b ''types'' = Some (Array ps)"
    by (simp add: map_of_set_prop)
  from detail_types_SomeD [OF t] obtain xs where
    x: "own_prop pd ''types'' = Some (JArr xs)"
    and m: "map Some ps = map (type_pair env c) xs"
    by blast
  show "\<exists>pokemonData xs ps.
               axios_get env (pokemon_url pokemonId) = Some pokemonData
             \<and> own_prop pokemonData ''types'' = Some (JArr xs)
             \<and> field b ''types'' = Some (Array ps)
             \<and> map Some ps = map (type_pair env c) xs"
    using p x f m by (intro exI conjI)
qed

theorem labelFor_counterexample:
  "labelFor unchecked_engine (fst (loadTypeTranslations unchecked_engine id empty_cache))
     (JStr ''fire'') = Some (Plain (JNum 7))"
  by code_simp

lemma sample_loaded_item_4:
  "process_item sample_engine sample_cache_loaded sample_ref_4 =
     Some (Object
       [(''id'', Plain (JStr ''4'')), (''name'', Plain (JStr ''Pairi'')),
        (''types'', Array [Plain (JStr sample_label)]),
        (''animatedImageUrl'', Plain (JStr ''animated/4.gif'')),
        (''defaultImageUrl'', Plain (JStr ''artwork/4.png''))])"
  by code_simp

lemma sample_loaded_detail_4:
  "fetch_detail sample_engine sample_cache_loaded ''4'' =
     Some (Object
       [(''id'', Plain (JNum 4)), (''name'', Plain (JStr ''Pairi'')),
        (''height'', Plain (JNum 6)),
        (''types'', Array [Object [(''englishName'', Plain (JStr ''fire'')),
                                  (''koreanName'', Plain (JStr sample_label))]]),
        (''sprites'', Plain sample_sprites_4)])"
  by code_simp

theorem labelFor_lookup_witness:
  "truthy (JStr sample_label)
   \<and> labelFor sample_engine sample_cache_loaded (JStr ''fire'') = Some (Plain (JStr sample_label))
   \<and> labelFor sample_engine sample_cache_loaded (JStr ''water'') = Some (Plain (JStr ''water''))
   \<and> process_item sample_engine sample_cache_loaded sample_ref_4 =
       Some (Object
         [(''id'', Plain (JStr ''4'')), (''name'', Plain (JStr ''Pairi'')),
          (''types'', Array [Plain (JStr sample_label)]),
          (''animatedImageUrl'', Plain (JStr ''animated/4.gif'')),
          (''defaultImageUrl'', Plain (JStr ''artwork/4.png''))])
   \<and> (\<exists>i pokemonData xs ls.
          item_id sample_ref_4 = Some i
        \<and> axios_get sample_engine (pokemon_url (id_text i)) = Some pokemonData
        \<and> own_prop pokemonData ''types'' = Some (JArr xs)
        \<and> field (Object
             [(''id'', Plain (JStr ''4'')), (''name'', Plain (JStr ''Pairi'')),
              (''types'', Array [Plain (JStr sample_label)]),
              (''animatedImageUrl'', Plain (JStr ''animated/4.gif'')),
              (''defaultImageUrl'', Plain (JStr ''artwork/4.png''))]) ''types''
            = Some (Array ls)
        \<and> map Some ls
            = map (\<lambda>x. labelFor sample_engine sample_cache_loaded (category_key x)) xs)
   \<and> fetch_detail sample_engine sample_cache_loaded ''4'' =
       Some (Object
         [(''id'', Plain (JNum 4)), (''name'', Plain (JStr ''Pairi'')),
          (''height'', Plain (JNum 6)),
          (''types'', Array [Object [(''englishName'', Plain (JStr ''fire'')),
                                    (''koreanName'', Plain (JStr sample_label))]]),
          (''sprites'', Plain sample_sprites_4)])
   \<and> (\<exists>pokemonData xs ps.
          axios_get sample_engine (pokemon_url ''4'') = Some pokemonData
        \<and> own_prop pokemonData ''types'' = Some (JArr xs)
        \<and> field (Object
             [(''id'', Plain (JNum 4)), (''name'', Plain (JStr ''Pairi'')),
              (''height'', Plain (JNum 6)),
              (''types'', Array [Object [(''englishName'', Plain (JStr ''fire'')),
                                        (''koreanName'', Plain (JStr sample_label))]]),
              (''sprites'', Plain sample_sprites_4)]) ''types''
            = Some (Array ps)
        \<and> map Some ps = map (type_pair sample_engine sample_cache_loaded) xs)"
proof -
  have "own sample_cache_loaded ''fire'' = Some (JStr sample_label)"
    by code_simp
  then have h1: "sample_cache_loaded = fst (loadTypeTranslations sample_engine rev empty_cache)
      \<and> own sample_cache_loaded ''fire'' = Some (JStr sample_label)"
    by (simp add: sample_cache_loaded_def)
  have h2: "own sample_cache_loaded ''water'' = None \<and> parent sample_cache_loaded = None
      \<and> ''water'' \<notin> set object_prototype"
    by code_simp
  note t = labelFor_lookup [where env = sample_engine and env' = sample_engine and sched = rev
      and c = sample_cache_loaded and k = "''fire''" and v = "JStr sample_label"
      and ka = "''water''" and ref = sample_ref_4 and pokemonId = "''4''"]
  note a = t [THEN conjunct2, THEN conjunct1, THEN mp, OF h1]
  note b = t [THEN conjunct2, THEN conjunct2, THEN conjunct1, THEN mp, OF h2]
  note c = t [THEN conjunct2, THEN conjunct2, THEN conjunct2, THEN conjunct1, THEN mp,
      OF sample_loaded_item_4]
  note d = t [THEN conjunct2, THEN conjunct2, THEN conjunct2, THEN conjunct2, THEN mp,
      OF sample_loaded_detail_4]
  from a have a1: "truthy (JStr sample_label)"
    and a2: "labelFor sample_engine sample_cache_loaded (JStr ''fire'')
        = Some (Plain (JStr sample_label))"
    by simp_all
  from a1 a2 b sample_loaded_item_4 c sample_loaded_detail_4 d show ?thesis
    by (intro conjI)
qed

section \<open>A failed population\<close>

lemma bind_None_cong:
  "(\<And>y. x = Some y \<Longrightarrow> (f y = None) = (g y = None)) \<Longrightarrow>
     (Option.bind x f = None) = (Option.bind x g = None)"
  by (cases x) simp_all

lemma bind_None_cong2:
  "(x = None) = (x' = None) \<Longrightarrow> (\<And>y y'. (f y = None) = (g y' = None)) \<Longrightarrow>
     (Option.bind x f = None) = (Option.bind x' g = None)"
  by (cases x; cases x') simp_all

lemma those_map_None_cong:
  assumes "\<And>x. (f x = None) = (g x = None)"
  shows "(those (map f xs) = None) = (those (map g xs) = None)"
proof -
  have "(None \<in> f ` set xs) = (None \<in> g ` set xs)"
  proof
    assume "None \<in> f ` set xs"
    then obtain x where "x \<in> set xs" "f x = None" by (metis imageE)
    with assms have "g x = None" by simp
    with \<open>x \<in> set xs\<close> show "None \<in> g ` set xs" by (metis imageI)
  next
    assume "None \<in> g ` set xs"
    then obtain x where "x \<in> set xs" "g x = None" by (metis imageE)
    with assms have "f x = None" by simp
    with \<open>x \<in> set xs\<close> show "None \<in> f ` set xs" by (metis imageI)
  qed
  then show ?thesis by (simp add: those_eq_None)
qed

lemma type_labels_None_cache:
  "(type_labels env c pd = None) = (type_labels env c' pd = None)"
proof (cases "get pd ''types''")
  case None
  then show ?thesis by (simp add: type_labels_def)
next
  case (Some ts)
  show ?thesis
  proof (cases ts)
    case (JArr xs)
    have "\<And>x. (do { ty \<leftarrow> get x ''type''; n \<leftarrow> get ty ''name''; labelFor env c n } = None)
        = (do { ty \<leftarrow> get x ''type''; n \<leftarrow> get ty ''name''; labelFor env c' n } = None)"
      by (intro bind_None_cong) (simp add: labelFor_None_iff)
    from those_map_None_cong [of _ _ xs, OF this] Some JArr show ?thesis
      by (simp add: type_labels_def)
  qed (simp_all add: type_labels_def Some)
qed

lemma detail_types_None_cache:
  "(detail_types env c pd = None) = (detail_types env c' pd = None)"
proof (cases "get pd ''types''")
  case None
  then show ?thesis by (simp add: detail_types_def)
next
  case (Some ts)
  show ?thesis
  proof (cases ts)
    case (JArr xs)
    have "\<And>x. (do { ty \<leftarrow> get x ''type''; n \<leftarrow> get ty ''name''; l \<leftarrow> labelFor env c n;
                    Some (Object [(''englishName'', Plain n), (''koreanName'', l)]) } = None)
        = (do { ty \<leftarrow> get x ''type''; n \<leftarrow> get ty ''name''; l \<leftarrow> labelFor env c' n;
                    Some (Object [(''englishName'', Plain n), (''koreanName'', l)]) } = None)"
      apply (rule bind_None_cong)+
      apply (rule bind_None_cong2)
       apply (simp add: labelFor_None_iff)
      apply simp
      done
    from those_map_None_cong [of _ _ xs, OF this] Some JArr show ?thesis
      by (simp add: detail_types_def)
  qed (simp_all add: detail_types_def Some)
qed

lemma process_item_None_cache:
  "(process_item env c r = None) = (process_item env c' r = None)"
  unfolding process_item_def
  apply (rule bind_None_cong)+
  apply (rule bind_None_cong2)
   apply (rule type_labels_None_cache)
  apply (rule bind_None_cong)+
  apply simp
  done

lemma fetch_page_None_cache:
  "(fetch_page env c q = None) = (fetch_page env c' q = None)"
proof -
  have "\<And>refs. (those (map (process_item env c) refs) = None)
      = (those (map (process_item env c') refs) = None)"
    by (rule those_map_None_cong) (rule process_item_None_cache)
  then show ?thesis
    unfolding fetch_page_def
    apply (intro bind_None_cong)
    subgoal for listData items
      apply (cases items)
            apply simp_all
      apply (rule bind_None_cong2)
       apply simp
      apply (rule bind_None_cong)
      apply simp
      done
    done
qed

lemma fetch_detail_None_cache:
  "(fetch_detail env c i = None) = (fetch_detail env c' i = None)"
  unfolding fetch_detail_def
  apply (rule bind_None_cong)+
  apply (rule bind_None_cong2)
   apply (rule detail_types_None_cache)
  apply simp
  done

lemma requests_ignore_cache:
  "status (api_pokemons env c q) = status (api_pokemons env c' q)
   \<and> status (api_pokemon env c i) = status (api_pokemon env c' i)"
  using fetch_page_None_cache [of env c q c'] fetch_detail_None_cache [of env c i c']
  by (auto simp: api_pokemons_def api_pokemon_def split: option.splits)

text \<open>
  C8, at an upstream that answers no request. Population leaves the empty cache as it
  is, logs the error and returns. The lookup of \<^verbatim>\<open>water\<close> then gives \<^verbatim>\<open>water\<close>. The
  lookup of \<^verbatim>\<open>constructor\<close> does not give the key: it gives the function that every
  object inherits under that name, and the list endpoint puts it among the type
  strings.
\<close>

theorem failed_population_lookup:
  "loadTypeTranslations offline_engine sched empty_cache = (empty_cache, [InitStart, InitError])
   \<and> labelFor offline_engine empty_cache (JStr ''water'') = Some (Plain (JStr ''water''))
   \<and> labelFor offline_engine empty_cache (JStr ''constructor'') = Some (Builtin ''constructor'')
   \<and> type_labels offline_engine empty_cache
        (JObj [(''types'', JArr [JObj [(''type'', JObj [(''name'', JStr ''constructor'')])]])])
       = Some [Builtin ''constructor'']"
proof -
  have "axios_get offline_engine (JStr type_list_url) = None"
    by (simp add: offline_engine_def)
  then have "loadTypeTranslations offline_engine sched empty_cache
      = (empty_cache, [InitStart, InitError])"
    by (rule loadTypeTranslations_fails)
  moreover have "labelFor offline_engine empty_cache (JStr ''water'') = Some (Plain (JStr ''water''))"
    by code_simp
  moreover have "labelFor offline_engine empty_cache (JStr ''constructor'')
      = Some (Builtin ''constructor'')"
    by code_simp
  moreover have "type_labels offline_engine empty_cache
        (JObj [(''types'', JArr [JObj [(''type'', JObj [(''name'', JStr ''constructor'')])]])])
       = Some [Builtin ''constructor'']"
    by code_simp
  ultimately show ?thesis by (intro conjI)
qed

end
